theory Spec2Isabelle
  imports Complex_Main
begin

section \<open>Data model of the connection manager\<close>

text \<open>
  The development embeds \<^verbatim>\<open>BaileysConnection\<close> (the Connection Session) and
  \<^verbatim>\<open>BaileysConnectionsHandler\<close> (the Connection Registry). A session object is a
  record; the registry is a map from phone numbers to references into a store of session
  objects. What a method does besides changing the session (calls into the transport, the
  credential store, the webhook dispatcher, the logger, the on-close callback) is returned
  as a list of effects in program order. Results of external calls that the source
  guards with try/catch, or lets propagate, are parameters of the model.
\<close>

subsection \<open>Exceptions\<close>

datatype exn =
    BaileysNotConnectedError
  | Error string
  | TypeError string

subsection \<open>JavaScript truthiness of optional strings and booleans\<close>

definition truthy_str :: "string option \<Rightarrow> bool" where
  "truthy_str v = (case v of None \<Rightarrow> False | Some x \<Rightarrow> x \<noteq> [])"

definition truthy_bool :: "bool option \<Rightarrow> bool" where
  "truthy_bool v = (case v of None \<Rightarrow> False | Some b \<Rightarrow> b)"

text \<open>\<^verbatim>\<open>a || d\<close> on an optional string: the default replaces undefined and the empty string.\<close>

definition or_else :: "string option \<Rightarrow> string \<Rightarrow> string" where
  "or_else v d = (case v of None \<Rightarrow> d | Some x \<Rightarrow> if x = [] then d else x)"

text \<open>\<^verbatim>\<open>a ?? d\<close>: the default replaces only a missing value.\<close>

definition nullish_else :: "'a option \<Rightarrow> 'a \<Rightarrow> 'a" where
  "nullish_else v d = (case v of None \<Rightarrow> d | Some x \<Rightarrow> x)"

subsection \<open>Callbacks, options, transport handles\<close>

text \<open>
  An on-close callback is either one supplied by the caller (opaque, identified by a
  number) or one of the two closures the registry builds: the closure of
  \<^verbatim>\<open>connect\<close>, which deletes the registry entry of its phone number and then calls the
  caller's callback if there is one, and the closure of \<^verbatim>\<open>reconnectFromAuthStore\<close>,
  which only deletes the entry.
\<close>

datatype callback =
    CallerCallback nat
  | RegistryOnClose string "callback option"
  | RestoreOnClose string

record BaileysConnectionOptions =
  clientName_opt :: "string option"
  webhookUrl_opt :: string
  webhookVerifyToken_opt :: string
  isReconnect_opt :: "bool option"
  includeMedia_opt :: "bool option"
  syncFullHistory_opt :: "bool option"
  onConnectionClose_opt :: "callback option"

text \<open>
  What the session reads of a transport handle: an identifier of the handle,
  \<^verbatim>\<open>socket.user?.id\<close> and whether \<^verbatim>\<open>socket.authState.creds.me\<close> is set.
\<close>

record wasocket =
  handle :: nat
  user_id :: "string option"
  creds_me :: bool

datatype WAPresence = unavailable | available | composing | recording | paused

text \<open>The pending presence-reset timer remembers the \<^verbatim>\<open>toJid\<close> it will reset.\<close>

datatype timer = Timeout "string option"

record BaileysConnection =
  phoneNumber :: string
  clientName :: string
  webhookUrl :: string
  webhookVerifyToken :: string
  isReconnect :: bool
  includeMedia :: bool
  syncFullHistory :: bool
  onConnectionClose :: "callback option"
  socket :: "wasocket option"
  clearAuthState :: bool
  clearOnlinePresenceTimeout :: "timer option"
  reconnectCount :: nat

text \<open>
  \<open>clearAuthState\<close> is \<open>True\<close> when the field holds the credential store's clear
  function and \<open>False\<close> when it is null.
\<close>

subsection \<open>Constructor and \<^verbatim>\<open>updateOptions\<close>\<close>

definition new_BaileysConnection :: "string \<Rightarrow> BaileysConnectionOptions \<Rightarrow> BaileysConnection" where
  "new_BaileysConnection pn options =
     \<lparr> phoneNumber = pn,
       clientName = or_else (clientName_opt options) ''Chrome'',
       webhookUrl = webhookUrl_opt options,
       webhookVerifyToken = webhookVerifyToken_opt options,
       isReconnect = truthy_bool (isReconnect_opt options),
       includeMedia = nullish_else (includeMedia_opt options) True,
       syncFullHistory = nullish_else (syncFullHistory_opt options) False,
       onConnectionClose = onConnectionClose_opt options,
       socket = None,
       clearAuthState = False,
       clearOnlinePresenceTimeout = None,
       reconnectCount = 0 \<rparr>"

definition updateOptions :: "BaileysConnectionOptions \<Rightarrow> BaileysConnection \<Rightarrow> BaileysConnection" where
  "updateOptions options s =
     s\<lparr> clientName := or_else (clientName_opt options) ''Chrome'',
        webhookUrl := webhookUrl_opt options,
        webhookVerifyToken := webhookVerifyToken_opt options,
        includeMedia := nullish_else (includeMedia_opt options) True,
        syncFullHistory := nullish_else (syncFullHistory_opt options) False \<rparr>"

subsection \<open>Connection updates, webhook payloads and effects\<close>

datatype WAConnectionState = Open | Connecting | Close | Reconnecting

text \<open>
  The error of \<^verbatim>\<open>lastDisconnect\<close>, as the handler reads it:
  \<^verbatim>\<open>error.output?.statusCode\<close>, \<^verbatim>\<open>error.output?.payload?.message\<close> and
  \<^verbatim>\<open>error.message\<close>.
\<close>

record Boom =
  statusCode :: "nat option"
  payload_message :: "string option"
  message :: string

text \<open>
  The fields of \<^verbatim>\<open>Partial<ConnectionState>\<close> that the handler reads or writes. For
  \<open>qr\<close>, \<open>None\<close> is a payload without the key, \<open>Some None\<close> a payload that has the
  key with no value. For \<open>lastDisconnect\<close>, \<open>None\<close> is a missing
  \<^verbatim>\<open>lastDisconnect\<close> and \<open>Some None\<close> one whose \<^verbatim>\<open>error\<close> is undefined.
\<close>

record ConnectionState =
  connection :: "WAConnectionState option"
  qr :: "string option option"
  lastDisconnect :: "Boom option option"
  isNewLogin :: "bool option"
  isOnline :: "bool option"
  qrDataUrl :: "string option"

record extra =
  media :: "string option"
  groupNames :: "(string \<times> string) list option"

datatype payload_data =
    ConnectionData ConnectionState
  | ErrorData string
  | EventData string

datatype payload = Payload string payload_data "extra option"

datatype effect =
    UseRedisAuthState string
  | ClearAuthState
  | MakeWASocket string bool
  | AddEventListeners nat
  | RemoveAllListeners nat string
  | CallOnConnectionClose callback
  | SendToWebhook payload bool
  | SaveCreds
  | SocketLogout nat
  | SocketSendMessage nat string
  | SocketSendPresenceUpdate nat WAPresence "string option"
  | SocketReadMessages nat "string list"
  | SocketChatModify nat string string
  | SocketFetchMessageHistory nat nat string nat
  | SocketSendReceipts nat "string list" string
  | SocketProfilePictureUrl nat string "string option"
  | SocketOnWhatsApp nat "string list"
  | SocketGroupMetadata nat string
  | PreprocessAudio
  | ClearTimeout
  | SetTimeout nat "string option"
  | LogDebug string
  | LogWarn string
  | LogError string

text \<open>
  The results of the external calls a session makes. \<open>makeWASocket\<close> is what creating a
  transport handle gives (an exception or the handle), \<open>socket_logout\<close> the exception of
  the transport's logout if it rejects, \<open>saveCreds\<close> that of the credential store's save.
  \<open>normalizeBrazilPhoneNumber\<close>, \<open>toDataURL\<close> and \<open>errorToString\<close> are helpers that
  are not part of the sources at hand, and \<open>listenToEvents\<close> is the configured
  allow-list of passthrough events. Opening and clearing the credential store and
  rendering a QR code are taken to succeed.
\<close>

record environment =
  makeWASocket :: "exn + wasocket"
  socket_logout :: "exn option"
  saveCreds :: "exn option"
  toDataURL :: "string \<Rightarrow> string"
  normalizeBrazilPhoneNumber :: "string \<Rightarrow> string"
  errorToString :: "exn \<Rightarrow> string"
  downloadMediaFromMessages :: "bool \<Rightarrow> string option"
  groupMetadata :: "string \<Rightarrow> exn + string option"
  listenToEvents :: "string list"

section \<open>The Connection Session\<close>

subsection \<open>Opening and closing\<close>

definition call_onConnectionClose :: "BaileysConnection \<Rightarrow> effect list" where
  "call_onConnectionClose s =
     (case onConnectionClose s of None \<Rightarrow> [] | Some cb \<Rightarrow> [CallOnConnectionClose cb])"

text \<open>
  \<^verbatim>\<open>connect\<close>: nothing when a handle exists; otherwise the credential store is opened,
  its clear function is kept, and the transport handle is created. When that throws, the
  error is logged, the on-close callback is called and the method returns normally.
\<close>

definition connect :: "environment \<Rightarrow> BaileysConnection \<Rightarrow> BaileysConnection \<times> effect list" where
  "connect env s =
     (if socket s \<noteq> None then (s, [])
      else
        let s1 = s\<lparr>clearAuthState := True\<rparr>;
            es = [UseRedisAuthState (phoneNumber s), MakeWASocket (clientName s) (syncFullHistory s)]
        in case makeWASocket env of
             Inl e \<Rightarrow> (s1, es @ [LogError ''BaileysConnection.connect''] @ call_onConnectionClose s1)
           | Inr k \<Rightarrow> (s1\<lparr>socket := Some k\<rparr>, es @ [AddEventListeners (handle k)]))"

definition close :: "BaileysConnection \<Rightarrow> BaileysConnection \<times> effect list" where
  "close s =
     (s\<lparr>clearAuthState := False, socket := None, reconnectCount := 0\<rparr>,
      (if clearAuthState s then [ClearAuthState] else []) @ call_onConnectionClose s)"

definition safeSocket :: "BaileysConnection \<Rightarrow> exn + wasocket" where
  "safeSocket s = (case socket s of None \<Rightarrow> Inl BaileysNotConnectedError | Some k \<Rightarrow> Inr k)"

definition logout :: "environment \<Rightarrow> BaileysConnection \<Rightarrow> BaileysConnection \<times> effect list" where
  "logout env s =
     (let es = (case safeSocket s of
                  Inl e \<Rightarrow> [LogError ''LOGOUT'']
                | Inr k \<Rightarrow> SocketLogout (handle k) #
                    (case socket_logout env of None \<Rightarrow> [] | Some e \<Rightarrow> [LogError ''LOGOUT'']));
          (s', es') = close s
      in (s', es @ es'))"

subsection \<open>Operations on the transport handle\<close>

text \<open>
  Every operation takes the reply of its one transport call as a parameter: \<open>Inl\<close> an
  exception the transport raises, \<open>Inr\<close> its result.
\<close>

definition sendPresenceUpdate ::
  "(exn + unit) \<Rightarrow> WAPresence \<Rightarrow> string option \<Rightarrow> BaileysConnection
     \<Rightarrow> (exn + unit) \<times> BaileysConnection \<times> effect list" where
  "sendPresenceUpdate reply type toJid s =
     (case safeSocket s of
        Inl e \<Rightarrow> (Inl e, s, [])
      | Inr k \<Rightarrow>
          if \<not> creds_me k then (Inr (), s, [])
          else (case reply of
                  Inl e \<Rightarrow> (Inl e, s, [SocketSendPresenceUpdate (handle k) type toJid])
                | Inr u \<Rightarrow>
                    let cancel = (clearOnlinePresenceTimeout s \<noteq> None
                                    \<and> (type = unavailable \<or> type = available));
                        s1 = (if cancel then s\<lparr>clearOnlinePresenceTimeout := None\<rparr> else s);
                        s2 = (if type = available
                              then s1\<lparr>clearOnlinePresenceTimeout := Some (Timeout toJid)\<rparr> else s1)
                    in (Inr (), s2,
                        [SocketSendPresenceUpdate (handle k) type toJid]
                          @ (if cancel then [ClearTimeout] else [])
                          @ (if type = available then [SetTimeout 60000 toJid] else []))))"

text \<open>\<^verbatim>\<open>String.prototype.includes\<close>: the second string occurs in the first.\<close>

fun includes_str :: "string \<Rightarrow> string \<Rightarrow> bool" where
  "includes_str [] sub = (sub = [])"
| "includes_str (c # cs) sub = (take (length sub) (c # cs) = sub \<or> includes_str cs sub)"

datatype audio_source = Buffer string | NotBuffer string

record AnyMessageContent =
  audio :: "audio_source option"
  ptt :: bool
  mimetype :: "string option"
  content :: string

datatype audio_format = ogg_low | mp3_high | wav

text \<open>
  The audio step of \<^verbatim>\<open>sendMessage\<close>: a buffer is transcoded (and a wav proxy made
  for voice notes); if either transcoding fails, the error is logged and the content is
  sent as it was. The result is the content to send, the waveform proxy and the effects.
\<close>

definition preprocess ::
  "(string \<Rightarrow> audio_format \<Rightarrow> exn + string) \<Rightarrow> AnyMessageContent
     \<Rightarrow> AnyMessageContent \<times> string option \<times> effect list" where
  "preprocess preprocessAudio c =
     (case audio c of
        Some (Buffer b) \<Rightarrow>
          (case (preprocessAudio b (if ptt c then ogg_low else mp3_high),
                 if ptt c then map_sum id Some (preprocessAudio b wav) else Inr None) of
             (Inr a, Inr w) \<Rightarrow>
               (c\<lparr>audio := Some (Buffer a),
                  mimetype := Some (if ptt c then ''audio/ogg; codecs=opus'' else ''audio/mpeg'')\<rparr>,
                w, [PreprocessAudio])
           | _ \<Rightarrow> (c, None, [PreprocessAudio, LogError ''sendMessage'']))
      | _ \<Rightarrow> (c, None, []))"

definition invalid_jid_message :: "string \<Rightarrow> string" where
  "invalid_jid_message jid =
     ''Invalid JID format: '' @ jid @
     ''. JID should end with either @g.us (for groups) or @s.whatsapp.net (for individual chats), not both.''"

definition sendMessage ::
  "environment \<Rightarrow> (string \<Rightarrow> audio_format \<Rightarrow> exn + string) \<Rightarrow> (exn + string)
     \<Rightarrow> string \<Rightarrow> AnyMessageContent \<Rightarrow> BaileysConnection
     \<Rightarrow> (exn + string) \<times> effect list" where
  "sendMessage env preprocessAudio reply jid c s =
     (case safeSocket s of
        Inl e \<Rightarrow> (Inl e, [])
      | Inr k \<Rightarrow>
          if includes_str jid ''@g.us@s.whatsapp.net'' \<or> includes_str jid ''@s.whatsapp.net@g.us''
          then (Inl (Error (invalid_jid_message jid)), [])
          else if \<not> truthy_str (user_id k)
          then (Inl (Error ''Connection not ready. Please wait for the connection to be fully established before sending messages.''), [])
          else
            let (c', w, es) = preprocess preprocessAudio c;
                es' = es @ [SocketSendMessage (handle k) jid]
            in (case reply of
                  Inr r \<Rightarrow> (Inr r, es')
                | Inl e \<Rightarrow>
                    (if includes_str (errorToString env e) ''Connection Closed''
                         \<or> includes_str (errorToString env e) ''428''
                     then (Inl (Error ''Connection is closed or not ready. Please ensure the WhatsApp connection is active and try again.''), es')
                     else (Inl e, es'))))"

definition readMessages ::
  "(exn + string) \<Rightarrow> string list \<Rightarrow> BaileysConnection \<Rightarrow> (exn + string) \<times> effect list" where
  "readMessages reply keys s =
     (case safeSocket s of
        Inl e \<Rightarrow> (Inl e, [])
      | Inr k \<Rightarrow> (reply, [SocketReadMessages (handle k) keys]))"

definition chatModify ::
  "(exn + string) \<Rightarrow> string \<Rightarrow> string \<Rightarrow> BaileysConnection \<Rightarrow> (exn + string) \<times> effect list" where
  "chatModify reply modification jid s =
     (case safeSocket s of
        Inl e \<Rightarrow> (Inl e, [])
      | Inr k \<Rightarrow> (reply, [SocketChatModify (handle k) modification jid]))"

definition fetchMessageHistory ::
  "(exn + string) \<Rightarrow> nat \<Rightarrow> string \<Rightarrow> nat \<Rightarrow> BaileysConnection
     \<Rightarrow> (exn + string) \<times> effect list" where
  "fetchMessageHistory reply count oldestMsgKey oldestMsgTimestamp s =
     (case safeSocket s of
        Inl e \<Rightarrow> (Inl e, [])
      | Inr k \<Rightarrow>
          (reply, [SocketFetchMessageHistory (handle k) count oldestMsgKey oldestMsgTimestamp]))"

definition sendReceipts ::
  "(exn + string) \<Rightarrow> string list \<Rightarrow> string \<Rightarrow> BaileysConnection
     \<Rightarrow> (exn + string) \<times> effect list" where
  "sendReceipts reply keys type s =
     (case safeSocket s of
        Inl e \<Rightarrow> (Inl e, [])
      | Inr k \<Rightarrow> (reply, [SocketSendReceipts (handle k) keys type]))"

definition profilePictureUrl ::
  "(exn + string) \<Rightarrow> string \<Rightarrow> string option \<Rightarrow> BaileysConnection
     \<Rightarrow> (exn + string) \<times> effect list" where
  "profilePictureUrl reply jid type s =
     (case safeSocket s of
        Inl e \<Rightarrow> (Inl e, [])
      | Inr k \<Rightarrow> (reply, [SocketProfilePictureUrl (handle k) jid type]))"

definition onWhatsApp ::
  "(exn + string) \<Rightarrow> string list \<Rightarrow> BaileysConnection \<Rightarrow> (exn + string) \<times> effect list" where
  "onWhatsApp reply jids s =
     (case safeSocket s of
        Inl e \<Rightarrow> (Inl e, [])
      | Inr k \<Rightarrow> (reply, [SocketOnWhatsApp (handle k) jids]))"

subsection \<open>Handlers of transport events\<close>

text \<open>
  A handler runs to completion before the next event is looked at: the calls the source
  starts without awaiting them (\<^verbatim>\<open>this.handleReconnecting()\<close>, \<^verbatim>\<open>this.connect()\<close>,
  \<^verbatim>\<open>this.logout()\<close>) are carried out where they are started. Handing a payload to
  \<^verbatim>\<open>sendToWebhook\<close> is the effect \<open>SendToWebhook\<close>; the delivery itself is the
  dispatcher's loop, modelled further down.
\<close>

definition reconnecting_data :: ConnectionState where
  "reconnecting_data =
     \<lparr> connection = Some Reconnecting, qr = None, lastDisconnect = None,
       isNewLogin = None, isOnline = None, qrDataUrl = None \<rparr>"

definition handleReconnecting :: "BaileysConnection \<Rightarrow> BaileysConnection \<times> effect list" where
  "handleReconnecting s =
     (let s1 = s\<lparr>reconnectCount := reconnectCount s + 1\<rparr>
      in if reconnectCount s1 > 10
         then (let (s2, es) = close s1 in (s2, LogWarn ''handleReconnecting'' # es))
         else (s1, [SendToWebhook (Payload ''connection.update'' (ConnectionData reconnecting_data) None) False]))"

definition handleWrongPhoneNumber ::
  "environment \<Rightarrow> BaileysConnection \<Rightarrow> BaileysConnection \<times> effect list" where
  "handleWrongPhoneNumber env s =
     (let es = SendToWebhook (Payload ''connection.update'' (ErrorData ''wrong_phone_number'') None) False #
               (case socket s of None \<Rightarrow> []
                | Some k \<Rightarrow> [RemoveAllListeners (handle k) ''connection.update'']);
          (s', es') = logout env s
      in (s', es @ es'))"

definition isReconnecting :: "ConnectionState \<Rightarrow> BaileysConnection \<Rightarrow> bool" where
  "isReconnecting data s =
     (truthy_bool (isNewLogin data) \<or>
      (connection data = Some Connecting \<and>
        ((case qr data of None \<Rightarrow> False | Some v \<Rightarrow> \<not> truthy_str v) \<or> isReconnect s)))"

text \<open>The value of \<^verbatim>\<open>DisconnectReason.loggedOut\<close> in the transport library.\<close>

definition DisconnectReason_loggedOut :: nat where
  "DisconnectReason_loggedOut = 401"

definition shouldReconnect :: "Boom \<Rightarrow> bool" where
  "shouldReconnect err =
     (statusCode err \<noteq> Some DisconnectReason_loggedOut \<and>
      or_else (payload_message err) (message err) \<noteq> ''QR refs attempts ended'')"

definition phoneNumberFromId :: "string \<Rightarrow> string" where
  "phoneNumberFromId uid =
     CHR ''+'' # takeWhile (\<lambda>c. c \<noteq> CHR '':'') (takeWhile (\<lambda>c. c \<noteq> CHR ''@'') uid)"

definition wrong_phone_number :: "environment \<Rightarrow> ConnectionState \<Rightarrow> BaileysConnection \<Rightarrow> bool" where
  "wrong_phone_number env data s =
     (connection data = Some Open \<and>
      (case socket s of
         None \<Rightarrow> False
       | Some k \<Rightarrow>
           truthy_str (user_id k) \<and>
           normalizeBrazilPhoneNumber env (phoneNumberFromId (the (user_id k)))
             \<noteq> normalizeBrazilPhoneNumber env (phoneNumber s)))"

text \<open>
  The payload as it is forwarded: a QR challenge is rendered and presented as
  "connecting", an online ping is presented as "open".
\<close>

definition shape :: "environment \<Rightarrow> ConnectionState \<Rightarrow> ConnectionState" where
  "shape env data =
     (let data1 = (case qr data of
                     Some (Some q) \<Rightarrow>
                       if q \<noteq> [] then data\<lparr>connection := Some Connecting,
                                              qrDataUrl := Some (toDataURL env q)\<rparr>
                       else data
                   | _ \<Rightarrow> data)
      in if truthy_bool (isOnline data) then data1\<lparr>connection := Some Open\<rparr> else data1)"

text \<open>The part of \<^verbatim>\<open>handleConnectionUpdate\<close> after the two early-return branches.\<close>

definition forward_update ::
  "environment \<Rightarrow> ConnectionState \<Rightarrow> BaileysConnection
     \<Rightarrow> (exn + unit) \<times> BaileysConnection \<times> effect list" where
  "forward_update env data s =
     (if wrong_phone_number env data s
      then (let (s', es) = handleWrongPhoneNumber env s in (Inr (), s', es))
      else
        let data' = shape env data;
            s' = (if connection data' = Some Open then s\<lparr>reconnectCount := 0\<rparr> else s)
        in (Inr (), s', [SendToWebhook (Payload ''connection.update'' (ConnectionData data') None) False]))"

definition handleConnectionUpdate ::
  "environment \<Rightarrow> ConnectionState \<Rightarrow> BaileysConnection
     \<Rightarrow> (exn + unit) \<times> BaileysConnection \<times> effect list" where
  "handleConnectionUpdate env data s =
     (if isReconnecting data s
      then (let (s', es) = handleReconnecting (s\<lparr>isReconnect := False\<rparr>)
            in (Inr (), s', LogDebug ''handleConnectionUpdate'' # es))
      else if connection data = Some Close
      then (case Option.bind (lastDisconnect data) id of
              None \<Rightarrow> (Inl (TypeError ''error is undefined''), s, [])
            | Some err \<Rightarrow>
                if shouldReconnect err
                then (let (s1, es1) = handleReconnecting s;
                          (s2, es2) = connect env (s1\<lparr>socket := None\<rparr>)
                      in (Inr (), s2, LogDebug ''handleConnectionUpdate'' # es1 @ es2))
                else (let (s1, es1) = close s;
                          (r, s2, es2) = forward_update env data s1
                      in (r, s2, es1 @ es2)))
      else forward_update env data s)"

definition ends_with :: "string \<Rightarrow> string \<Rightarrow> bool" where
  "ends_with str sub =
     (length sub \<le> length str \<and> drop (length str - length sub) str = sub)"

definition isJidGroup :: "string \<Rightarrow> bool" where
  "isJidGroup jid = ends_with jid ''@g.us''"

text \<open>The distinct group addresses of a batch, in the order of their first occurrence.\<close>

definition groupJids :: "string option list \<Rightarrow> string list" where
  "groupJids remoteJids =
     rev (remdups (rev (filter isJidGroup (map the (filter truthy_str remoteJids)))))"

fun lookup_groupNames ::
  "environment \<Rightarrow> nat \<Rightarrow> string list \<Rightarrow> (string \<times> string) list \<times> effect list" where
  "lookup_groupNames env h [] = ([], [])"
| "lookup_groupNames env h (j # js) =
     (let (names, es) = lookup_groupNames env h js
      in case groupMetadata env j of
           Inl e \<Rightarrow> (names, SocketGroupMetadata h j # LogDebug ''handleMessagesUpsert'' # es)
         | Inr subject \<Rightarrow>
             ((if truthy_str subject then [(j, the subject)] else []) @ names,
              SocketGroupMetadata h j # es))"

definition handleMessagesUpsert ::
  "environment \<Rightarrow> string option list \<Rightarrow> string \<Rightarrow> BaileysConnection
     \<Rightarrow> (exn + unit) \<times> BaileysConnection \<times> effect list" where
  "handleMessagesUpsert env remoteJids data s =
     (let m = downloadMediaFromMessages env (includeMedia s);
          extra0 = (if truthy_str m then Some \<lparr>media = m, groupNames = None\<rparr> else None);
          (names, es) = (case socket s of
                           None \<Rightarrow> ([], [])
                         | Some k \<Rightarrow> lookup_groupNames env (handle k) (groupJids remoteJids));
          extra1 = (if names \<noteq> []
                    then Some \<lparr>media = (case extra0 of None \<Rightarrow> None | Some x \<Rightarrow> media x),
                               groupNames = Some names\<rparr>
                    else extra0)
      in (Inr (), s, es @ [SendToWebhook (Payload ''messages.upsert'' (EventData data) extra1) False]))"

definition handleMessagesUpdate ::
  "string \<Rightarrow> BaileysConnection \<Rightarrow> (exn + unit) \<times> BaileysConnection \<times> effect list" where
  "handleMessagesUpdate data s =
     (Inr (), s, [SendToWebhook (Payload ''messages.update'' (EventData data) None) True])"

definition handleMessageReceiptUpdate ::
  "string \<Rightarrow> BaileysConnection \<Rightarrow> (exn + unit) \<times> BaileysConnection \<times> effect list" where
  "handleMessageReceiptUpdate data s =
     (Inr (), s, [SendToWebhook (Payload ''message-receipt.update'' (EventData data) None) False])"

definition handleMessagingHistorySet ::
  "string \<Rightarrow> BaileysConnection \<Rightarrow> (exn + unit) \<times> BaileysConnection \<times> effect list" where
  "handleMessagingHistorySet data s =
     (if \<not> syncFullHistory s then (Inr (), s, [])
      else (Inr (), s, [SendToWebhook (Payload ''messaging-history.set'' (EventData data) None) False]))"

subsection \<open>Subscribing to the transport's events\<close>

datatype bevent =
    connection_update ConnectionState
  | creds_update
  | messages_upsert "string option list" string
  | messages_update string
  | message_receipt_update string
  | messaging_history_set string
  | other_event string string

fun event_name :: "bevent \<Rightarrow> string" where
  "event_name (connection_update d) = ''connection.update''"
| "event_name creds_update = ''creds.update''"
| "event_name (messages_upsert js d) = ''messages.upsert''"
| "event_name (messages_update d) = ''messages.update''"
| "event_name (message_receipt_update d) = ''message-receipt.update''"
| "event_name (messaging_history_set d) = ''messaging-history.set''"
| "event_name (other_event n d) = n"

datatype handler =
    saveCreds_fn
  | handleConnectionUpdate_fn
  | handleMessagesUpsert_fn
  | handleMessagesUpdate_fn
  | handleMessageReceiptUpdate_fn
  | handleMessagingHistorySet_fn
  | sendToWebhook_fn string

text \<open>
  A listener is a handler as it is, or a handler inside \<^verbatim>\<open>withErrorHandling\<close> with
  the name it logs under.
\<close>

datatype listener = Plain handler | WithErrorHandling string handler

definition withErrorHandling ::
  "string \<Rightarrow> (exn + unit) \<times> BaileysConnection \<times> effect list
     \<Rightarrow> (exn + unit) \<times> BaileysConnection \<times> effect list" where
  "withErrorHandling handlerName r =
     (case r of
        (Inl e, s, es) \<Rightarrow> (Inr (), s, es @ [LogError handlerName])
      | (Inr u, s, es) \<Rightarrow> (Inr u, s, es))"

definition handledEvents :: "(string \<times> listener) list" where
  "handledEvents =
     [(''creds.update'', Plain saveCreds_fn),
      (''connection.update'', WithErrorHandling ''handleConnectionUpdate'' handleConnectionUpdate_fn),
      (''messages.upsert'', WithErrorHandling ''handleMessagesUpsert'' handleMessagesUpsert_fn),
      (''messages.update'', WithErrorHandling ''handleMessagesUpdate'' handleMessagesUpdate_fn),
      (''message-receipt.update'',
         WithErrorHandling ''handleMessageReceiptUpdate'' handleMessageReceiptUpdate_fn),
      (''messaging-history.set'',
         WithErrorHandling ''handleMessagingHistorySet'' handleMessagingHistorySet_fn)]"

definition ALL_BAILEYS_SOCKET_EVENTS :: "string list" where
  "ALL_BAILEYS_SOCKET_EVENTS =
     [''connection.update'', ''creds.update'', ''messaging-history.set'', ''chats.upsert'',
      ''chats.update'', ''lid-mapping.update'', ''chats.delete'', ''presence.update'',
      ''contacts.upsert'', ''contacts.update'', ''messages.delete'', ''messages.update'',
      ''messages.media-update'', ''messages.upsert'', ''messages.reaction'',
      ''message-receipt.update'', ''groups.upsert'', ''groups.update'',
      ''group-participants.update'', ''group.join-request'', ''blocklist.set'',
      ''blocklist.update'', ''call'', ''labels.edit'', ''labels.association'',
      ''newsletter.reaction'', ''newsletter.view'', ''newsletter-participants.update'',
      ''newsletter-settings.update'']"

text \<open>The listeners \<^verbatim>\<open>addEventListeners\<close> attaches, by event name.\<close>

definition addEventListeners :: "environment \<Rightarrow> (string \<times> listener) list" where
  "addEventListeners env =
     handledEvents @
     map (\<lambda>event. (event, Plain (sendToWebhook_fn event)))
       (filter (\<lambda>event. \<not> (event \<in> fst ` set handledEvents \<or> event \<notin> set (listenToEvents env)))
          ALL_BAILEYS_SOCKET_EVENTS)"

fun run_handler ::
  "environment \<Rightarrow> handler \<Rightarrow> bevent \<Rightarrow> BaileysConnection
     \<Rightarrow> (exn + unit) \<times> BaileysConnection \<times> effect list" where
  "run_handler env saveCreds_fn ev s =
     ((case saveCreds env of None \<Rightarrow> Inr () | Some e \<Rightarrow> Inl e), s, [SaveCreds])"
| "run_handler env handleConnectionUpdate_fn (connection_update d) s = handleConnectionUpdate env d s"
| "run_handler env handleMessagesUpsert_fn (messages_upsert js d) s = handleMessagesUpsert env js d s"
| "run_handler env handleMessagesUpdate_fn (messages_update d) s = handleMessagesUpdate d s"
| "run_handler env handleMessageReceiptUpdate_fn (message_receipt_update d) s =
     handleMessageReceiptUpdate d s"
| "run_handler env handleMessagingHistorySet_fn (messaging_history_set d) s =
     handleMessagingHistorySet d s"
| "run_handler env (sendToWebhook_fn event) (other_event n d) s =
     (Inr (), s, [SendToWebhook (Payload event (EventData d) None) False])"
| "run_handler env h ev s = (Inr (), s, [])"

text \<open>
  The transport emits an event: the listener attached under the event's name runs. The
  first component of the result is what leaves the listener: \<open>Inl\<close> an exception that
  nothing in the session caught.
\<close>

definition emit ::
  "environment \<Rightarrow> bevent \<Rightarrow> BaileysConnection \<Rightarrow> (exn + unit) \<times> BaileysConnection \<times> effect list" where
  "emit env ev s =
     (case map_of (addEventListeners env) (event_name ev) of
        None \<Rightarrow> (Inr (), s, [])
      | Some (Plain h) \<Rightarrow> run_handler env h ev s
      | Some (WithErrorHandling n h) \<Rightarrow> withErrorHandling n (run_handler env h ev s))"

section \<open>The Webhook Dispatcher\<close>

subsection \<open>JavaScript numbers\<close>

text \<open>
  The delays of the dispatcher are JavaScript numbers: IEEE 754 double-precision values.
  A number is a finite double, given by the real it stands for, or one of the two
  infinities, or NaN (the two zeros are not told apart). \<open>to_double\<close> rounds a real to
  the nearest double, ties to the even significand: \<open>exponent x\<close> is the binary exponent
  of a positive \<open>x\<close>, not below that of the subnormal range, and a result of
  \<open>2\<^sup>1\<^sup>0\<^sup>2\<^sup>4\<close> or more is an infinity. \<open>js_mul\<close>, \<open>js_add\<close> and \<open>js_floor\<close> are
  \<^verbatim>\<open>*\<close>, \<^verbatim>\<open>+\<close> and \<^verbatim>\<open>Math.floor\<close>: the exact result, rounded.
\<close>

datatype number = Finite real | PlusInfinity | MinusInfinity | NaN

fun halvings :: "nat \<Rightarrow> real \<Rightarrow> nat" where
  "halvings n x = (if n = 0 \<or> x < 2 then 0 else Suc (halvings (n - 1) (x / 2)))"

fun doublings :: "nat \<Rightarrow> real \<Rightarrow> nat" where
  "doublings n x = (if n = 0 \<or> 1 \<le> x then 0 else Suc (doublings (n - 1) (x * 2)))"

definition exponent :: "real \<Rightarrow> int" where
  "exponent x = (if 1 \<le> x then int (halvings 1024 x) else - int (doublings 1022 x))"

definition round_half_even :: "real \<Rightarrow> int" where
  "round_half_even q =
     (if q - of_int \<lfloor>q\<rfloor> < 1 / 2 then \<lfloor>q\<rfloor>
      else if 1 / 2 < q - of_int \<lfloor>q\<rfloor> then \<lfloor>q\<rfloor> + 1
      else if even \<lfloor>q\<rfloor> then \<lfloor>q\<rfloor> else \<lfloor>q\<rfloor> + 1)"

definition to_double :: "real \<Rightarrow> number" where
  "to_double x =
     (if x = 0 then Finite 0
      else
        let ulp = 2 powi (exponent \<bar>x\<bar> - 52);
            y = of_int (round_half_even (\<bar>x\<bar> / ulp)) * ulp
        in if 2 powi 1024 \<le> y then (if 0 < x then PlusInfinity else MinusInfinity)
           else Finite (if 0 < x then y else - y))"

fun js_mul :: "number \<Rightarrow> number \<Rightarrow> number" where
  "js_mul (Finite x) (Finite y) = to_double (x * y)"
| "js_mul NaN b = NaN"
| "js_mul a NaN = NaN"
| "js_mul (Finite x) PlusInfinity =
     (if x = 0 then NaN else if 0 < x then PlusInfinity else MinusInfinity)"
| "js_mul (Finite x) MinusInfinity =
     (if x = 0 then NaN else if 0 < x then MinusInfinity else PlusInfinity)"
| "js_mul PlusInfinity (Finite y) =
     (if y = 0 then NaN else if 0 < y then PlusInfinity else MinusInfinity)"
| "js_mul MinusInfinity (Finite y) =
     (if y = 0 then NaN else if 0 < y then MinusInfinity else PlusInfinity)"
| "js_mul PlusInfinity PlusInfinity = PlusInfinity"
| "js_mul PlusInfinity MinusInfinity = MinusInfinity"
| "js_mul MinusInfinity PlusInfinity = MinusInfinity"
| "js_mul MinusInfinity MinusInfinity = PlusInfinity"

fun js_add :: "number \<Rightarrow> number \<Rightarrow> number" where
  "js_add (Finite x) (Finite y) = to_double (x + y)"
| "js_add NaN b = NaN"
| "js_add a NaN = NaN"
| "js_add PlusInfinity MinusInfinity = NaN"
| "js_add MinusInfinity PlusInfinity = NaN"
| "js_add PlusInfinity b = PlusInfinity"
| "js_add MinusInfinity b = MinusInfinity"
| "js_add a PlusInfinity = PlusInfinity"
| "js_add a MinusInfinity = MinusInfinity"

fun js_floor :: "number \<Rightarrow> number" where
  "js_floor (Finite x) = Finite (of_int \<lfloor>x\<rfloor>)"
| "js_floor a = a"

subsection \<open>Delivery with retries\<close>

text \<open>
  The retry policy is configuration that is not among the sources at hand; it is a
  parameter. \<open>maxRetries\<close> is a count; the interval and the factor are numbers.
\<close>

record retryPolicy =
  maxRetries :: nat
  retryInterval :: number
  backoffFactor :: number

record response =
  status :: nat


datatype fetch_result = Responded response | Rejected exn

record request =
  url :: string
  body :: payload
  verifyToken :: string
  awaitResponse :: "bool option"

datatype delivery_step =
    HttpPost nat request
  | AsyncSleep number
  | LogSuccess
  | LogErrorResponse nat
  | LogErrorSend
  | LogRetrying nat number
  | LogFailed




section \<open>The Connection Registry\<close>

text \<open>
  \<^verbatim>\<open>BaileysConnectionsHandler\<close> holds references to session objects. \<open>objects\<close> is
  the store of session objects, \<open>next_ref\<close> the reference the next
  \<^verbatim>\<open>new BaileysConnection\<close> gets: the sessions created so far are the references
  below \<open>next_ref\<close>.
\<close>

record registry =
  connections :: "string \<rightharpoonup> nat"
  objects :: "nat \<Rightarrow> BaileysConnection"
  next_ref :: nat

text \<open>What calling an on-close callback does to the registry's map.\<close>

fun on_close :: "callback \<Rightarrow> (string \<rightharpoonup> nat) \<Rightarrow> (string \<rightharpoonup> nat)" where
  "on_close (CallerCallback n) m = m"
| "on_close (RegistryOnClose pn inner) m =
     (case inner of None \<Rightarrow> m(pn := None) | Some cb \<Rightarrow> on_close cb (m(pn := None)))"
| "on_close (RestoreOnClose pn) m = m(pn := None)"

fun run_callbacks :: "effect list \<Rightarrow> (string \<rightharpoonup> nat) \<Rightarrow> (string \<rightharpoonup> nat)" where
  "run_callbacks [] m = m"
| "run_callbacks (CallOnConnectionClose cb # es) m = run_callbacks es (on_close cb m)"
| "run_callbacks (e # es) m = run_callbacks es m"

text \<open>
  \<^verbatim>\<open>connect\<close> up to its \<^verbatim>\<open>await connection.connect()\<close>. The result is an
  exception, or \<open>None\<close> when the method has returned (the session existed and answered
  the probe), or the reference of the session just created, whose \<^verbatim>\<open>connect\<close> the
  method now awaits. \<open>reply\<close> is the transport's reply to the presence probe.
\<close>

definition handler_connect_enter ::
  "(exn + unit) \<Rightarrow> string \<Rightarrow> BaileysConnectionOptions \<Rightarrow> registry
     \<Rightarrow> (exn + nat option) \<times> registry \<times> effect list" where
  "handler_connect_enter reply pn options r =
     (let create = (\<lambda>r'. r'\<lparr>objects := (objects r')
                              (next_ref r' := new_BaileysConnection pn
                                 (options\<lparr>onConnectionClose_opt :=
                                    Some (RegistryOnClose pn (onConnectionClose_opt options))\<rparr>)),
                            next_ref := next_ref r' + 1\<rparr>)
      in case connections r pn of
           None \<Rightarrow> (Inr (Some (next_ref r)), create r, [])
         | Some a \<Rightarrow>
             (case sendPresenceUpdate reply available None (updateOptions options (objects r a)) of
                (res, s', es) \<Rightarrow>
                  let r1 = r\<lparr>objects := (objects r)(a := s')\<rparr>
                  in (case res of
                        Inr u \<Rightarrow> (Inr None, r1, es)
                      | Inl e \<Rightarrow>
                          if e \<noteq> BaileysNotConnectedError then (Inl e, r1, es)
                          else
                            let r2 = r1\<lparr>connections := (connections r1)(pn := None)\<rparr>
                            in (Inr (Some (next_ref r2)), create r2,
                                es @ [LogDebug ''Handled inconsistent connection state'']))))"

text \<open>
  The rest of \<^verbatim>\<open>connect\<close>: the session's own \<^verbatim>\<open>connect\<close> is carried out (with
  the callbacks it calls), then the session is entered in the map.
\<close>

definition handler_connect_resume ::
  "environment \<Rightarrow> string \<Rightarrow> nat \<Rightarrow> registry \<Rightarrow> registry \<times> effect list" where
  "handler_connect_resume env pn a r =
     (case connect env (objects r a) of
        (s', es) \<Rightarrow>
          let m = run_callbacks es (connections r)
          in (r\<lparr>objects := (objects r)(a := s'), connections := m(pn \<mapsto> a)\<rparr>,
              es @ [LogDebug ''Now tracking connections'']))"

text \<open>A call of \<^verbatim>\<open>connect\<close> that no other task interleaves with.\<close>

definition handler_connect ::
  "environment \<Rightarrow> (exn + unit) \<Rightarrow> string \<Rightarrow> BaileysConnectionOptions \<Rightarrow> registry
     \<Rightarrow> (exn + unit) \<times> registry \<times> effect list" where
  "handler_connect env reply pn options r =
     (case handler_connect_enter reply pn options r of
        (Inl e, r1, es) \<Rightarrow> (Inl e, r1, es)
      | (Inr None, r1, es) \<Rightarrow> (Inr (), r1, es)
      | (Inr (Some a), r1, es) \<Rightarrow>
          (case handler_connect_resume env pn a r1 of (r2, es') \<Rightarrow> (Inr (), r2, es @ es')))"

definition getConnection :: "registry \<Rightarrow> string \<Rightarrow> exn + nat" where
  "getConnection r pn =
     (case connections r pn of None \<Rightarrow> Inl BaileysNotConnectedError | Some a \<Rightarrow> Inr a)"

text \<open>The operations the registry dispatches to the session of a phone number.\<close>

definition handler_sendPresenceUpdate ::
  "(exn + unit) \<Rightarrow> string \<Rightarrow> WAPresence \<Rightarrow> string option \<Rightarrow> registry
     \<Rightarrow> (exn + unit) \<times> registry \<times> effect list" where
  "handler_sendPresenceUpdate reply pn type toJid r =
     (case getConnection r pn of
        Inl e \<Rightarrow> (Inl e, r, [])
      | Inr a \<Rightarrow>
          (case sendPresenceUpdate reply type toJid (objects r a) of
             (res, s', es) \<Rightarrow> (res, r\<lparr>objects := (objects r)(a := s')\<rparr>, es)))"

definition handler_sendMessage ::
  "environment \<Rightarrow> (string \<Rightarrow> audio_format \<Rightarrow> exn + string) \<Rightarrow> (exn + string)
     \<Rightarrow> string \<Rightarrow> string \<Rightarrow> AnyMessageContent \<Rightarrow> registry \<Rightarrow> (exn + string) \<times> effect list" where
  "handler_sendMessage env preprocessAudio reply pn jid messageContent r =
     (case getConnection r pn of
        Inl e \<Rightarrow> (Inl e, [])
      | Inr a \<Rightarrow> sendMessage env preprocessAudio reply jid messageContent (objects r a))"

definition handler_readMessages ::
  "(exn + string) \<Rightarrow> string \<Rightarrow> string list \<Rightarrow> registry \<Rightarrow> (exn + string) \<times> effect list" where
  "handler_readMessages reply pn keys r =
     (case getConnection r pn of
        Inl e \<Rightarrow> (Inl e, [])
      | Inr a \<Rightarrow> readMessages reply keys (objects r a))"

definition handler_chatModify ::
  "(exn + string) \<Rightarrow> string \<Rightarrow> string \<Rightarrow> string \<Rightarrow> registry \<Rightarrow> (exn + string) \<times> effect list" where
  "handler_chatModify reply pn modification jid r =
     (case getConnection r pn of
        Inl e \<Rightarrow> (Inl e, [])
      | Inr a \<Rightarrow> chatModify reply modification jid (objects r a))"

definition handler_fetchMessageHistory ::
  "(exn + string) \<Rightarrow> string \<Rightarrow> nat \<Rightarrow> string \<Rightarrow> nat \<Rightarrow> registry
     \<Rightarrow> (exn + string) \<times> effect list" where
  "handler_fetchMessageHistory reply pn count oldestMsgKey oldestMsgTimestamp r =
     (case getConnection r pn of
        Inl e \<Rightarrow> (Inl e, [])
      | Inr a \<Rightarrow> fetchMessageHistory reply count oldestMsgKey oldestMsgTimestamp (objects r a))"

definition handler_sendReceipts ::
  "(exn + string) \<Rightarrow> string \<Rightarrow> string list \<Rightarrow> string \<Rightarrow> registry
     \<Rightarrow> (exn + string) \<times> effect list" where
  "handler_sendReceipts reply pn keys type r =
     (case getConnection r pn of
        Inl e \<Rightarrow> (Inl e, [])
      | Inr a \<Rightarrow> sendReceipts reply keys type (objects r a))"

definition handler_profilePictureUrl ::
  "(exn + string) \<Rightarrow> string \<Rightarrow> string \<Rightarrow> string option \<Rightarrow> registry
     \<Rightarrow> (exn + string) \<times> effect list" where
  "handler_profilePictureUrl reply pn jid type r =
     (case getConnection r pn of
        Inl e \<Rightarrow> (Inl e, [])
      | Inr a \<Rightarrow> profilePictureUrl reply jid type (objects r a))"

definition handler_onWhatsApp ::
  "(exn + string) \<Rightarrow> string \<Rightarrow> string list \<Rightarrow> registry \<Rightarrow> (exn + string) \<times> effect list" where
  "handler_onWhatsApp reply pn jids r =
     (case getConnection r pn of
        Inl e \<Rightarrow> (Inl e, [])
      | Inr a \<Rightarrow> onWhatsApp reply jids (objects r a))"

text \<open>
  A transport event reaches the session object \<open>a\<close>: its listener runs, the object is
  updated in the store, and the callbacks the listener called act on the map.
\<close>

definition deliver ::
  "environment \<Rightarrow> nat \<Rightarrow> bevent \<Rightarrow> registry \<Rightarrow> (exn + unit) \<times> registry \<times> effect list" where
  "deliver env a ev r =
     (case emit env ev (objects r a) of
        (res, s', es) \<Rightarrow>
          (res, r\<lparr>objects := (objects r)(a := s'),
                  connections := run_callbacks es (connections r)\<rparr>, es))"

section \<open>Observations on runs and example values\<close>

subsection \<open>Reading a delivery\<close>


fun posts :: "delivery_step list \<Rightarrow> nat list" where
  "posts [] = []"
| "posts (HttpPost n req # xs) = n # posts xs"
| "posts (x # xs) = posts xs"

fun posts_and_sleeps :: "delivery_step list \<Rightarrow> delivery_step list" where
  "posts_and_sleeps [] = []"
| "posts_and_sleeps (HttpPost n req # xs) = HttpPost n req # posts_and_sleeps xs"
| "posts_and_sleeps (AsyncSleep d # xs) = AsyncSleep d # posts_and_sleeps xs"
| "posts_and_sleeps (x # xs) = posts_and_sleeps xs"


definition retry_steps :: "retryPolicy \<Rightarrow> (nat \<Rightarrow> real) \<Rightarrow> nat \<Rightarrow> number \<Rightarrow> delivery_step list" where
  "retry_steps p random a d =
     (if a + 1 \<le> maxRetries p
      then [LogRetrying (a + 1) d,
            AsyncSleep (js_add d (js_floor (js_mul (Finite (random a)) (Finite 1000))))]
      else [])"

definition failure_logs :: "fetch_result \<Rightarrow> delivery_step list" where
  "failure_logs f = (case f of Responded r \<Rightarrow> [LogErrorResponse (status r)] | Rejected e \<Rightarrow> [LogErrorSend])"

subsection \<open>Example values\<close>

definition example_options :: BaileysConnectionOptions where
  "example_options =
     \<lparr> clientName_opt = None, webhookUrl_opt = ''http://localhost:3026/whatsapp'',
       webhookVerifyToken_opt = ''a3f4b2'', isReconnect_opt = None, includeMedia_opt = None,
       syncFullHistory_opt = None, onConnectionClose_opt = None \<rparr>"





definition example_session :: BaileysConnection where
  "example_session = new_BaileysConnection ''+15550100'' example_options"


definition example_socket :: "nat \<Rightarrow> wasocket" where
  "example_socket h = \<lparr> handle = h, user_id = Some ''15550100:7@s.whatsapp.net'', creds_me = True \<rparr>"

definition example_env :: environment where
  "example_env =
     \<lparr> makeWASocket = Inr (example_socket 2), socket_logout = None, saveCreds = None,
       toDataURL = (\<lambda>q. ''data:image/png;base64,'' @ q),
       normalizeBrazilPhoneNumber = (\<lambda>n. n),
       errorToString = (\<lambda>e. case e of Error m \<Rightarrow> m | TypeError m \<Rightarrow> m
                                      | BaileysNotConnectedError \<Rightarrow> ''Phone number not connected''),
       downloadMediaFromMessages = (\<lambda>b. None),
       groupMetadata = (\<lambda>j. Inr None),
       listenToEvents = [] \<rparr>"

definition example_content :: AnyMessageContent where
  "example_content = \<lparr> audio = None, ptt = False, mimetype = None, content = ''hello'' \<rparr>"

definition empty_registry :: registry where
  "empty_registry = \<lparr> connections = Map.empty, objects = (\<lambda>a. example_session), next_ref = 0 \<rparr>"

definition failing_transport_env :: environment where
  "failing_transport_env = example_env\<lparr>makeWASocket := Inl (Error ''socket creation failed'')\<rparr>"

definition live_session :: BaileysConnection where
  "live_session = example_session\<lparr>socket := Some (example_socket 1), clearAuthState := True,
     onConnectionClose := Some (RegistryOnClose ''+15550100'' None)\<rparr>"

definition live_registry :: registry where
  "live_registry =
     \<lparr> connections = [''+15550100'' \<mapsto> 0], objects = (\<lambda>a. live_session), next_ref = 1 \<rparr>"

definition stale_registry :: registry where
  "stale_registry =
     \<lparr> connections = [''+15550100'' \<mapsto> 0],
       objects = (\<lambda>a. live_session\<lparr>socket := None\<rparr>), next_ref = 1 \<rparr>"

definition recoverable_close :: ConnectionState where
  "recoverable_close =
     \<lparr> connection = Some Close, qr = None,
       lastDisconnect = Some (Some \<lparr> statusCode = Some 428, payload_message = Some ''Connection Closed'',
                                     message = ''Connection Closed'' \<rparr>),
       isNewLogin = None, isOnline = None, qrDataUrl = None \<rparr>"

definition overlapping_connects :: "(exn + nat option) \<times> (exn + nat option) \<times> registry" where
  "overlapping_connects =
     (case handler_connect_enter (Inr ()) ''+15550100'' example_options empty_registry of
        (first, r1, es1) \<Rightarrow>
          (case handler_connect_enter (Inr ()) ''+15550100'' example_options r1 of
             (second, r2, es2) \<Rightarrow>
               (case handler_connect_resume example_env ''+15550100'' 0 r2 of
                  (r3, es3) \<Rightarrow>
                    (case handler_connect_resume
                            (example_env\<lparr>makeWASocket := Inr (example_socket 3)\<rparr>) ''+15550100'' 1 r3 of
                       (r4, es4) \<Rightarrow> (first, second, r4)))))"

definition online_ping :: ConnectionState where
  "online_ping =
     \<lparr> connection = None, qr = None, lastDisconnect = None,
       isNewLogin = None, isOnline = Some True, qrDataUrl = None \<rparr>"

definition terminal_close :: ConnectionState where
  "terminal_close =
     \<lparr> connection = Some Close, qr = None,
       lastDisconnect = Some (Some \<lparr> statusCode = Some 401, payload_message = Some ''Connection Failure'',
                                     message = ''Connection Failure'' \<rparr>),
       isNewLogin = None, isOnline = None, qrDataUrl = None \<rparr>"

definition waiting_session :: BaileysConnection where
  "waiting_session = live_session\<lparr>socket := Some \<lparr> handle = 1, user_id = None, creds_me = False \<rparr>\<rparr>"

definition waiting_registry :: registry where
  "waiting_registry =
     \<lparr> connections = [''+15550100'' \<mapsto> 0], objects = (\<lambda>a. waiting_session), next_ref = 1 \<rparr>"

section \<open>Properties of the Webhook Dispatcher\<close>







lemma posts_failure_logs [simp]: "posts (failure_logs f) = []" "posts_and_sleeps (failure_logs f) = []"
  by (auto simp: failure_logs_def split: fetch_result.splits)

lemma posts_retry_steps [simp]: "posts (retry_steps p random a d) = []"
  by (simp add: retry_steps_def)












subsection \<open>Rounding\<close>








lemma halvings_lower: "1 \<le> x \<Longrightarrow> 2 ^ halvings n x \<le> x"
proof (induction n arbitrary: x)
  case 0
  then show ?case by (subst halvings.simps) simp
next
  case (Suc n)
  show ?case
  proof (cases "x < 2")
    case True
    with Suc.prems show ?thesis by (subst halvings.simps) simp
  next
    case False
    then have "1 \<le> x / 2" by simp
    then have "2 ^ halvings n (x / 2) \<le> x / 2" by (rule Suc.IH)
    with False show ?thesis by (subst halvings.simps) simp
  qed
qed



subsection \<open>The delivery\<close>




section \<open>Properties of the Connection Session\<close>

subsection \<open>Refreshing the options\<close>

text \<open>
  C10, as the code has it. \<^verbatim>\<open>updateOptions\<close> overwrites the client name with the
  provided one when that is a non-empty string, and with "Chrome" when it is omitted or
  empty; it overwrites the webhook URL and the verification token with the provided ones,
  and the include-media and full-history flags with the provided ones or, when omitted,
  with \<open>True\<close> and \<open>False\<close>. The phone number, the on-close callback, the reconnect
  count, the transport handle and the presence-reset timer stay as they were (and so do
  the reconnect flag and the credential store's clear function).
\<close>

theorem updateOptions_overwrites_refreshable_options:
  "clientName (updateOptions options s) =
     (case clientName_opt options of None \<Rightarrow> ''Chrome'' | Some n \<Rightarrow> if n = [] then ''Chrome'' else n)
   \<and> webhookUrl (updateOptions options s) = webhookUrl_opt options
   \<and> webhookVerifyToken (updateOptions options s) = webhookVerifyToken_opt options
   \<and> includeMedia (updateOptions options s) =
       (case includeMedia_opt options of None \<Rightarrow> True | Some b \<Rightarrow> b)
   \<and> syncFullHistory (updateOptions options s) =
       (case syncFullHistory_opt options of None \<Rightarrow> False | Some b \<Rightarrow> b)
   \<and> phoneNumber (updateOptions options s) = phoneNumber s
   \<and> onConnectionClose (updateOptions options s) = onConnectionClose s
   \<and> reconnectCount (updateOptions options s) = reconnectCount s
   \<and> socket (updateOptions options s) = socket s
   \<and> clearOnlinePresenceTimeout (updateOptions options s) = clearOnlinePresenceTimeout s
   \<and> isReconnect (updateOptions options s) = isReconnect s
   \<and> clearAuthState (updateOptions options s) = clearAuthState s"
  by (simp add: updateOptions_def or_else_def nullish_else_def)

text \<open>
  C10 as stated fails for a client name that is provided and empty: the session does not
  keep the provided value, it takes the default.
\<close>

theorem updateOptions_empty_clientName_counterexample:
  "clientName_opt (example_options\<lparr>clientName_opt := Some ''''\<rparr>) = Some ''''
   \<and> clientName (updateOptions (example_options\<lparr>clientName_opt := Some ''''\<rparr>) example_session) = ''Chrome''
   \<and> ''Chrome'' \<noteq> ''''"
  by (simp add: updateOptions_def or_else_def example_options_def)

subsection \<open>Sending to a malformed address\<close>

lemma includes_str_append: "includes_str (xs @ sub) sub"
  by (induction xs) (auto simp: neq_Nil_conv, (cases sub; simp)+)

text \<open>
  C7. An address carries both suffixes when one of \<^verbatim>\<open>@g.us\<close> and
  \<^verbatim>\<open>@s.whatsapp.net\<close> is appended to an address that ends with the other. For every
  such address \<^verbatim>\<open>sendMessage\<close> fails and no effect has happened: nothing was asked of
  the transport, the transcoder or the logger. The error is the one that describes the
  malformed address when the session has a transport handle; without a handle it is the
  not-connected error, raised even earlier.
\<close>

theorem sendMessage_rejects_both_suffixes:
  assumes "jid = base @ ''@g.us@s.whatsapp.net'' \<or> jid = base @ ''@s.whatsapp.net@g.us''"
  shows "sendMessage env preprocessAudio reply jid c s =
           (Inl (if socket s = None then BaileysNotConnectedError
                 else Error (invalid_jid_message jid)), [])"
proof -
  from assms have "includes_str jid ''@g.us@s.whatsapp.net'' \<or> includes_str jid ''@s.whatsapp.net@g.us''"
    using includes_str_append by blast
  then show ?thesis
    by (auto simp: sendMessage_def safeSocket_def split: option.splits)
qed

theorem sendMessage_rejects_both_suffixes_witness:
  "sendMessage example_env (\<lambda>b f. Inr b) (Inr ''ack'') ''120363041@g.us@s.whatsapp.net'' example_content
      (example_session\<lparr>socket := Some (example_socket 1)\<rparr>)
     = (Inl (Error (invalid_jid_message ''120363041@g.us@s.whatsapp.net'')), [])"
  using sendMessage_rejects_both_suffixes[of "''120363041@g.us@s.whatsapp.net''" "''120363041''"
          example_env "\<lambda>b f. Inr b" "Inr ''ack''" example_content
          "example_session\<lparr>socket := Some (example_socket 1)\<rparr>"]
  by simp

subsection \<open>Exceptions inside listeners\<close>

lemma listener_creds_update:
  "map_of (addEventListeners env) ''creds.update'' = Some (Plain saveCreds_fn)"
  by (simp add: addEventListeners_def handledEvents_def)

text \<open>
  C5 at a credential update whose save fails: the listener of \<^verbatim>\<open>creds.update\<close> is
  \<^verbatim>\<open>saveCreds\<close> itself, not wrapped in \<^verbatim>\<open>withErrorHandling\<close>, so the exception
  leaves the listener and the session logs nothing.
\<close>

theorem creds_update_exception_escapes:
  "emit (example_env\<lparr>saveCreds := Some (Error ''READONLY'')\<rparr>) creds_update example_session
     = (Inl (Error ''READONLY''), example_session, [SaveCreds])"
  by (simp add: emit_def listener_creds_update)

section \<open>Properties of the Connection Registry\<close>

subsection \<open>Callbacks and the session's \<^verbatim>\<open>connect\<close>\<close>

lemma on_close_absent: "m pn = None \<Longrightarrow> on_close cb m pn = None"
  by (induction cb m rule: on_close.induct) (auto split: option.splits)

lemma run_callbacks_absent: "m pn = None \<Longrightarrow> run_callbacks es m pn = None"
  by (induction es m rule: run_callbacks.induct) (auto simp: on_close_absent)

lemma socket_new [simp]: "socket (new_BaileysConnection pn options) = None"
  by (simp add: new_BaileysConnection_def)

lemma onConnectionClose_new [simp]:
  "onConnectionClose (new_BaileysConnection pn options) = onConnectionClose_opt options"
  by (simp add: new_BaileysConnection_def)

lemma connect_fails:
  "socket s = None \<Longrightarrow> makeWASocket env = Inl e \<Longrightarrow>
   connect env s = (s\<lparr>clearAuthState := True\<rparr>,
     [UseRedisAuthState (phoneNumber s), MakeWASocket (clientName s) (syncFullHistory s),
      LogError ''BaileysConnection.connect''] @
     (case onConnectionClose s of None \<Rightarrow> [] | Some cb \<Rightarrow> [CallOnConnectionClose cb]))"
  by (simp add: connect_def call_onConnectionClose_def Let_def)

lemma connect_succeeds:
  "socket s = None \<Longrightarrow> makeWASocket env = Inr k \<Longrightarrow>
   connect env s = (s\<lparr>clearAuthState := True, socket := Some k\<rparr>,
     [UseRedisAuthState (phoneNumber s), MakeWASocket (clientName s) (syncFullHistory s),
      AddEventListeners (handle k)])"
  by (simp add: connect_def Let_def)

lemma enter_unregistered:
  "connections r pn = None \<Longrightarrow>
   handler_connect_enter reply pn options r =
     (Inr (Some (next_ref r)),
      r\<lparr>objects := (objects r)(next_ref r := new_BaileysConnection pn
                (options\<lparr>onConnectionClose_opt := Some (RegistryOnClose pn (onConnectionClose_opt options))\<rparr>)),
        next_ref := next_ref r + 1\<rparr>, [])"
  by (simp add: handler_connect_enter_def Let_def)

lemma dispatch_without_handle:
  assumes "connections r pn = Some a" and "socket (objects r a) = None"
  shows "handler_sendPresenceUpdate reply1 pn type1 toJid r = (Inl BaileysNotConnectedError, r, [])
    \<and> handler_sendMessage env2 preprocessAudio reply2 pn jid2 messageContent r = (Inl BaileysNotConnectedError, [])
    \<and> handler_readMessages reply3 pn keys3 r = (Inl BaileysNotConnectedError, [])
    \<and> handler_chatModify reply4 pn modification jid4 r = (Inl BaileysNotConnectedError, [])
    \<and> handler_fetchMessageHistory reply5 pn count oldestMsgKey oldestMsgTimestamp r = (Inl BaileysNotConnectedError, [])
    \<and> handler_sendReceipts reply6 pn keys6 type6 r = (Inl BaileysNotConnectedError, [])
    \<and> handler_profilePictureUrl reply7 pn jid7 type7 r = (Inl BaileysNotConnectedError, [])
    \<and> handler_onWhatsApp reply8 pn jids r = (Inl BaileysNotConnectedError, [])"
  using assms
  by (simp add: getConnection_def safeSocket_def handler_sendPresenceUpdate_def sendPresenceUpdate_def
          handler_sendMessage_def sendMessage_def handler_readMessages_def readMessages_def
          handler_chatModify_def chatModify_def handler_fetchMessageHistory_def
          fetchMessageHistory_def handler_sendReceipts_def sendReceipts_def
          handler_profilePictureUrl_def profilePictureUrl_def handler_onWhatsApp_def
          onWhatsApp_def)

text \<open>
  C9. When creating the transport handle throws during \<^verbatim>\<open>connect\<close> for a phone number
  that has no entry, the call still returns normally. The on-close callback is called
  while the session is not yet in the map, so all it removes is what the caller's own
  callback removes; the session is entered afterwards and stays registered with no
  transport handle. From then on each of the eight dispatched operations finds the
  session and fails with the not-connected error, with no effect.
\<close>

theorem connect_registers_session_without_handle:
  assumes "connections r pn = None" and "makeWASocket env = Inl e"
  shows "let out = handler_connect env reply pn options r; r' = fst (snd out); a = next_ref r in
      fst out = Inr ()
    \<and> CallOnConnectionClose (RegistryOnClose pn (onConnectionClose_opt options)) \<in> set (snd (snd out))
    \<and> connections r' =
        (case onConnectionClose_opt options of None \<Rightarrow> connections r
         | Some cb \<Rightarrow> on_close cb (connections r))(pn \<mapsto> a)
    \<and> socket (objects r' a) = None
    \<and> handler_sendPresenceUpdate reply1 pn type1 toJid r' = (Inl BaileysNotConnectedError, r', [])
    \<and> handler_sendMessage env2 preprocessAudio reply2 pn jid2 messageContent r' = (Inl BaileysNotConnectedError, [])
    \<and> handler_readMessages reply3 pn keys3 r' = (Inl BaileysNotConnectedError, [])
    \<and> handler_chatModify reply4 pn modification jid4 r' = (Inl BaileysNotConnectedError, [])
    \<and> handler_fetchMessageHistory reply5 pn count oldestMsgKey oldestMsgTimestamp r' = (Inl BaileysNotConnectedError, [])
    \<and> handler_sendReceipts reply6 pn keys6 type6 r' = (Inl BaileysNotConnectedError, [])
    \<and> handler_profilePictureUrl reply7 pn jid7 type7 r' = (Inl BaileysNotConnectedError, [])
    \<and> handler_onWhatsApp reply8 pn jids r' = (Inl BaileysNotConnectedError, [])"
proof -
  let ?a = "next_ref r"
  let ?s = "new_BaileysConnection pn
              (options\<lparr>onConnectionClose_opt := Some (RegistryOnClose pn (onConnectionClose_opt options))\<rparr>)"
  let ?m = "(case onConnectionClose_opt options of None \<Rightarrow> connections r
             | Some cb \<Rightarrow> on_close cb (connections r))(pn \<mapsto> ?a)"
  let ?es = "[UseRedisAuthState (phoneNumber ?s), MakeWASocket (clientName ?s) (syncFullHistory ?s),
              LogError ''BaileysConnection.connect'',
              CallOnConnectionClose (RegistryOnClose pn (onConnectionClose_opt options)),
              LogDebug ''Now tracking connections'']"
  define r' where "r' = r\<lparr>objects := (objects r)(?a := ?s\<lparr>clearAuthState := True\<rparr>), next_ref := ?a + 1,
               connections := ?m\<rparr>"
  have noop: "(connections r)(pn := None) = connections r"
    using assms(1) by (simp add: fun_upd_idem)
  have run: "handler_connect env reply pn options r = (Inr (), r', ?es)"
    using assms
    by (simp add: r'_def handler_connect_def enter_unregistered handler_connect_resume_def
          connect_fails noop Let_def split: option.splits)
  have reg: "connections r' pn = Some ?a" by (simp add: r'_def)
  have nosock: "socket (objects r' ?a) = None" by (simp add: r'_def)
  have m: "connections r' = ?m" by (simp add: r'_def)
  show ?thesis
    unfolding Let_def run fst_conv snd_conv
    using dispatch_without_handle[OF reg nosock] m nosock by simp
qed

theorem connect_registers_session_without_handle_witness:
  "connections empty_registry ''+15550100'' = None
   \<and> makeWASocket failing_transport_env = Inl (Error ''socket creation failed'')
   \<and> fst (handler_connect failing_transport_env (Inr ()) ''+15550100'' example_options empty_registry) = Inr ()
   \<and> connections (fst (snd (handler_connect failing_transport_env (Inr ()) ''+15550100'' example_options empty_registry)))
        ''+15550100'' = Some 0
   \<and> handler_readMessages (Inr ''read'') ''+15550100'' [''key'']
        (fst (snd (handler_connect failing_transport_env (Inr ()) ''+15550100'' example_options empty_registry)))
       = (Inl BaileysNotConnectedError, [])"
proof -
  have h1: "connections empty_registry ''+15550100'' = None" by (simp add: empty_registry_def)
  have h2: "makeWASocket failing_transport_env = Inl (Error ''socket creation failed'')"
    by (simp add: failing_transport_env_def)
  from connect_registers_session_without_handle[OF h1 h2, of "Inr ()" example_options,
        unfolded Let_def]
  show ?thesis using h1 h2 by (simp add: empty_registry_def example_options_def)
qed


subsection \<open>Connecting an identity that is registered\<close>

lemma socket_updateOptions [simp]: "socket (updateOptions options s) = socket s"
  by (simp add: updateOptions_def)

lemma timer_updateOptions [simp]:
  "clearOnlinePresenceTimeout (updateOptions options s) = clearOnlinePresenceTimeout s"
  by (simp add: updateOptions_def)

lemma probe_sent:
  "socket s = Some k \<Longrightarrow> creds_me k \<Longrightarrow>
   sendPresenceUpdate (Inr ()) available None s =
     (Inr (), s\<lparr>clearOnlinePresenceTimeout := Some (Timeout None)\<rparr>,
      SocketSendPresenceUpdate (handle k) available None #
      (if clearOnlinePresenceTimeout s \<noteq> None then [ClearTimeout] else []) @
      [SetTimeout 60000 None])"
  by (simp add: sendPresenceUpdate_def safeSocket_def Let_def)

lemma probe_not_sent:
  "socket s = Some k \<Longrightarrow> \<not> creds_me k \<Longrightarrow>
   sendPresenceUpdate reply available None s = (Inr (), s, [])"
  by (simp add: sendPresenceUpdate_def safeSocket_def)

lemma probe_rejected:
  "socket s = Some k \<Longrightarrow> creds_me k \<Longrightarrow>
   sendPresenceUpdate (Inl e) available None s =
     (Inl e, s, [SocketSendPresenceUpdate (handle k) available None])"
  by (simp add: sendPresenceUpdate_def safeSocket_def)

lemma probe_stale:
  "socket s = None \<Longrightarrow>
   sendPresenceUpdate reply available None s = (Inl BaileysNotConnectedError, s, [])"
  by (simp add: sendPresenceUpdate_def safeSocket_def)

lemma connect_replaces_stale:
  assumes "connections r pn = Some a"
    and "sendPresenceUpdate reply available None (updateOptions options (objects r a))
           = (Inl BaileysNotConnectedError, s', es)"
  shows "fst (handler_connect env reply pn options r) = Inr ()
    \<and> connections (fst (snd (handler_connect env reply pn options r))) pn = Some (next_ref r)
    \<and> next_ref (fst (snd (handler_connect env reply pn options r))) = next_ref r + 1
    \<and> objects (fst (snd (handler_connect env reply pn options r))) (next_ref r) =
         fst (connect env (new_BaileysConnection pn
           (options\<lparr>onConnectionClose_opt :=
              Some (RegistryOnClose pn (onConnectionClose_opt options))\<rparr>)))
    \<and> (\<forall>k'. makeWASocket env = Inr k' \<longrightarrow>
           socket (objects (fst (snd (handler_connect env reply pn options r))) (next_ref r)) = Some k'
         \<and> connections (fst (snd (handler_connect env reply pn options r)))
             = (connections r)(pn \<mapsto> next_ref r))"
  using assms
  by (auto simp: handler_connect_def handler_connect_enter_def handler_connect_resume_def Let_def
        connect_succeeds split: prod.splits)

text \<open>
  C6, as the code has it. Let the identity be registered. \<^verbatim>\<open>connect\<close> applies
  \<^verbatim>\<open>updateOptions\<close> to the registered session and calls its
  \<^verbatim>\<open>sendPresenceUpdate("available")\<close>.
  \<^item> The session has a transport handle with an established identity and the transport
    accepts the presence update: the update is sent to the transport, the call returns
    normally and no session is created (the map and the next reference are as before).
    The only object that changes is the registered session: it has the new options and a
    fresh presence-reset timer. The effects are the presence update, the cancelling of a
    pending timer if there was one, and the new timer.
  \<^item> The session has a transport handle without an established identity: nothing is
    sent to the transport, the call returns normally, no session is created, and the
    registered session only gets the new options.
  \<^item> The session has no transport handle (or the transport itself raises the
    not-connected error): the call returns normally, a session is created under the next
    reference, its own \<^verbatim>\<open>connect\<close> is carried out, and the map sends the identity to
    it; when the transport handle can be created, the new session holds it and the map is
    the old map with the identity sent to the new session.
  \<^item> The transport rejects the presence update with any other error: that error reaches
    the caller, the map and the next reference are as before, and the registered session
    only has the new options.
\<close>

theorem connect_existing_session:
  assumes "connections r pn = Some a"
  shows "let s0 = objects r a;
             s1 = updateOptions options s0;
             out = handler_connect env reply pn options r;
             r' = fst (snd out);
             es = snd (snd out)
         in (\<forall>k. socket s0 = Some k \<and> creds_me k \<and> reply = Inr () \<longrightarrow>
               fst out = Inr () \<and> connections r' = connections r \<and> next_ref r' = next_ref r
             \<and> objects r' = (objects r)(a := s1\<lparr>clearOnlinePresenceTimeout := Some (Timeout None)\<rparr>)
             \<and> es = SocketSendPresenceUpdate (handle k) available None #
                    (if clearOnlinePresenceTimeout s0 \<noteq> None then [ClearTimeout] else []) @
                    [SetTimeout 60000 None])
          \<and> (\<forall>k. socket s0 = Some k \<and> \<not> creds_me k \<longrightarrow>
               fst out = Inr () \<and> connections r' = connections r \<and> next_ref r' = next_ref r
             \<and> objects r' = (objects r)(a := s1) \<and> es = [])
          \<and> (socket s0 = None \<or> (\<exists>k. socket s0 = Some k \<and> creds_me k
                                      \<and> reply = Inl BaileysNotConnectedError) \<longrightarrow>
               fst out = Inr () \<and> connections r' pn = Some (next_ref r)
             \<and> next_ref r' = next_ref r + 1
             \<and> objects r' (next_ref r) =
                 fst (connect env (new_BaileysConnection pn
                   (options\<lparr>onConnectionClose_opt :=
                      Some (RegistryOnClose pn (onConnectionClose_opt options))\<rparr>)))
             \<and> (\<forall>k'. makeWASocket env = Inr k' \<longrightarrow>
                   socket (objects r' (next_ref r)) = Some k'
                 \<and> connections r' = (connections r)(pn \<mapsto> next_ref r)))
          \<and> (\<forall>k e. socket s0 = Some k \<and> creds_me k \<and> reply = Inl e
                     \<and> e \<noteq> BaileysNotConnectedError \<longrightarrow>
               fst out = Inl e \<and> connections r' = connections r \<and> next_ref r' = next_ref r
             \<and> objects r' = (objects r)(a := s1)
             \<and> es = [SocketSendPresenceUpdate (handle k) available None])"
proof -
  let ?s0 = "objects r a"
  let ?s1 = "updateOptions options ?s0"
  let ?out = "handler_connect env reply pn options r"
  have sent: "socket ?s0 = Some k \<Longrightarrow> creds_me k \<Longrightarrow> reply = Inr () \<Longrightarrow>
      ?out = (Inr (),
              r\<lparr>objects := (objects r)(a := ?s1\<lparr>clearOnlinePresenceTimeout := Some (Timeout None)\<rparr>)\<rparr>,
              SocketSendPresenceUpdate (handle k) available None #
                (if clearOnlinePresenceTimeout ?s0 \<noteq> None then [ClearTimeout] else []) @
                [SetTimeout 60000 None])" for k
    using assms probe_sent[of ?s1 k]
    by (simp add: handler_connect_def handler_connect_enter_def Let_def)
  have unsent: "socket ?s0 = Some k \<Longrightarrow> \<not> creds_me k \<Longrightarrow>
      ?out = (Inr (), r\<lparr>objects := (objects r)(a := ?s1)\<rparr>, [])" for k
    using assms probe_not_sent[of ?s1 k reply]
    by (simp add: handler_connect_def handler_connect_enter_def Let_def)
  have rejected: "socket ?s0 = Some k \<Longrightarrow> creds_me k \<Longrightarrow> reply = Inl e \<Longrightarrow>
      e \<noteq> BaileysNotConnectedError \<Longrightarrow>
      ?out = (Inl e, r\<lparr>objects := (objects r)(a := ?s1)\<rparr>,
              [SocketSendPresenceUpdate (handle k) available None])" for k e
    using assms probe_rejected[of ?s1 k e]
    by (simp add: handler_connect_def handler_connect_enter_def Let_def)
  have stale: "socket ?s0 = None \<or> (\<exists>k. socket ?s0 = Some k \<and> creds_me k
                                      \<and> reply = Inl BaileysNotConnectedError) \<Longrightarrow>
      fst ?out = Inr () \<and> connections (fst (snd ?out)) pn = Some (next_ref r)
    \<and> next_ref (fst (snd ?out)) = next_ref r + 1
    \<and> objects (fst (snd ?out)) (next_ref r) =
         fst (connect env (new_BaileysConnection pn
           (options\<lparr>onConnectionClose_opt :=
              Some (RegistryOnClose pn (onConnectionClose_opt options))\<rparr>)))
    \<and> (\<forall>k'. makeWASocket env = Inr k' \<longrightarrow>
           socket (objects (fst (snd ?out)) (next_ref r)) = Some k'
         \<and> connections (fst (snd ?out)) = (connections r)(pn \<mapsto> next_ref r))"
  proof (erule disjE)
    assume "socket ?s0 = None"
    then have p: "sendPresenceUpdate reply available None ?s1 = (Inl BaileysNotConnectedError, ?s1, [])"
      by (simp add: probe_stale)
    show ?thesis by (rule connect_replaces_stale[OF assms p])
  next
    assume "\<exists>k. socket ?s0 = Some k \<and> creds_me k \<and> reply = Inl BaileysNotConnectedError"
    then obtain k where k: "socket ?s0 = Some k" "creds_me k" "reply = Inl BaileysNotConnectedError"
      by blast
    then have p: "sendPresenceUpdate reply available None ?s1 =
        (Inl BaileysNotConnectedError, ?s1, [SocketSendPresenceUpdate (handle k) available None])"
      by (simp add: probe_rejected)
    show ?thesis by (rule connect_replaces_stale[OF assms p])
  qed
  have p1: "\<forall>k. socket ?s0 = Some k \<and> creds_me k \<and> reply = Inr () \<longrightarrow>
               fst ?out = Inr () \<and> connections (fst (snd ?out)) = connections r
             \<and> next_ref (fst (snd ?out)) = next_ref r
             \<and> objects (fst (snd ?out)) =
                 (objects r)(a := ?s1\<lparr>clearOnlinePresenceTimeout := Some (Timeout None)\<rparr>)
             \<and> snd (snd ?out) = SocketSendPresenceUpdate (handle k) available None #
                    (if clearOnlinePresenceTimeout ?s0 \<noteq> None then [ClearTimeout] else []) @
                    [SetTimeout 60000 None]"
  proof (intro allI impI, elim conjE)
    fix k assume "socket ?s0 = Some k" "creds_me k" "reply = Inr ()"
    from sent[OF this] show "fst ?out = Inr () \<and> connections (fst (snd ?out)) = connections r
             \<and> next_ref (fst (snd ?out)) = next_ref r
             \<and> objects (fst (snd ?out)) =
                 (objects r)(a := ?s1\<lparr>clearOnlinePresenceTimeout := Some (Timeout None)\<rparr>)
             \<and> snd (snd ?out) = SocketSendPresenceUpdate (handle k) available None #
                    (if clearOnlinePresenceTimeout ?s0 \<noteq> None then [ClearTimeout] else []) @
                    [SetTimeout 60000 None]"
      by simp
  qed
  have p2: "\<forall>k. socket ?s0 = Some k \<and> \<not> creds_me k \<longrightarrow>
               fst ?out = Inr () \<and> connections (fst (snd ?out)) = connections r
             \<and> next_ref (fst (snd ?out)) = next_ref r
             \<and> objects (fst (snd ?out)) = (objects r)(a := ?s1) \<and> snd (snd ?out) = []"
  proof (intro allI impI, elim conjE)
    fix k assume "socket ?s0 = Some k" "\<not> creds_me k"
    from unsent[OF this] show "fst ?out = Inr () \<and> connections (fst (snd ?out)) = connections r
             \<and> next_ref (fst (snd ?out)) = next_ref r
             \<and> objects (fst (snd ?out)) = (objects r)(a := ?s1) \<and> snd (snd ?out) = []"
      by simp
  qed
  have p4: "\<forall>k e. socket ?s0 = Some k \<and> creds_me k \<and> reply = Inl e
                     \<and> e \<noteq> BaileysNotConnectedError \<longrightarrow>
               fst ?out = Inl e \<and> connections (fst (snd ?out)) = connections r
             \<and> next_ref (fst (snd ?out)) = next_ref r
             \<and> objects (fst (snd ?out)) = (objects r)(a := ?s1)
             \<and> snd (snd ?out) = [SocketSendPresenceUpdate (handle k) available None]"
  proof (intro allI impI, elim conjE)
    fix k e assume "socket ?s0 = Some k" "creds_me k" "reply = Inl e" "e \<noteq> BaileysNotConnectedError"
    from rejected[OF this] show "fst ?out = Inl e \<and> connections (fst (snd ?out)) = connections r
             \<and> next_ref (fst (snd ?out)) = next_ref r
             \<and> objects (fst (snd ?out)) = (objects r)(a := ?s1)
             \<and> snd (snd ?out) = [SocketSendPresenceUpdate (handle k) available None]"
      by simp
  qed
  show ?thesis
    unfolding Let_def
    using p1 p2 p4 stale by blast
qed


theorem connect_existing_session_witness:
  "connections live_registry ''+15550100'' = Some 0
   \<and> socket (objects live_registry 0) = Some (example_socket 1)
   \<and> creds_me (example_socket 1)
   \<and> fst (handler_connect example_env (Inr ()) ''+15550100'' example_options live_registry) = Inr ()
   \<and> next_ref (fst (snd (handler_connect example_env (Inr ()) ''+15550100'' example_options live_registry))) = 1
   \<and> snd (snd (handler_connect example_env (Inr ()) ''+15550100'' example_options live_registry))
        = [SocketSendPresenceUpdate 1 available None, SetTimeout 60000 None]
   \<and> connections stale_registry ''+15550100'' = Some 0
   \<and> socket (objects stale_registry 0) = None
   \<and> makeWASocket example_env = Inr (example_socket 2)
   \<and> connections (fst (snd (handler_connect example_env (Inr ()) ''+15550100'' example_options stale_registry)))
        ''+15550100'' = Some 1
   \<and> socket (objects (fst (snd (handler_connect example_env (Inr ()) ''+15550100'' example_options
        stale_registry))) 1) = Some (example_socket 2)
   \<and> Error ''timed out'' \<noteq> BaileysNotConnectedError
   \<and> fst (handler_connect example_env (Inl (Error ''timed out'')) ''+15550100'' example_options live_registry)
        = Inl (Error ''timed out'')
   \<and> connections (fst (snd (handler_connect example_env (Inl (Error ''timed out'')) ''+15550100''
        example_options live_registry))) = connections live_registry
   \<and> connections waiting_registry ''+15550100'' = Some 0
   \<and> socket (objects waiting_registry 0) = Some \<lparr> handle = 1, user_id = None, creds_me = False \<rparr>
   \<and> \<not> creds_me \<lparr> handle = 1, user_id = None, creds_me = False \<rparr>
   \<and> next_ref (fst (snd (handler_connect example_env (Inr ()) ''+15550100'' example_options waiting_registry))) = 1
   \<and> connections (fst (snd (handler_connect example_env (Inr ()) ''+15550100'' example_options waiting_registry)))
        = connections waiting_registry"
proof -
  have live: "connections live_registry ''+15550100'' = Some 0"
    and stale: "connections stale_registry ''+15550100'' = Some 0"
    by (simp_all add: live_registry_def stale_registry_def)
  have s1: "socket (objects live_registry 0) = Some (example_socket 1)"
    and s2: "socket (objects stale_registry 0) = None"
    and t1: "clearOnlinePresenceTimeout (objects live_registry 0) = None"
    by (simp_all add: live_registry_def stale_registry_def live_session_def example_session_def
          new_BaileysConnection_def)
  have me: "creds_me (example_socket 1)" and h: "handle (example_socket 1) = 1"
    by (simp_all add: example_socket_def)
  have mk: "makeWASocket example_env = Inr (example_socket 2)" by (simp add: example_env_def)
  have ne: "Error ''timed out'' \<noteq> BaileysNotConnectedError" by simp
  have n1: "next_ref live_registry = 1" "next_ref stale_registry = 1"
    by (simp_all add: live_registry_def stale_registry_def)
  note T1 = connect_existing_session[OF live, where options=example_options and reply="Inr ()"
              and env=example_env, unfolded Let_def]
  note T2 = connect_existing_session[OF stale, where options=example_options and reply="Inr ()"
              and env=example_env, unfolded Let_def]
  note T3 = connect_existing_session[OF live, where options=example_options
              and reply="Inl (Error ''timed out'')" and env=example_env, unfolded Let_def]
  from T1 s1 me
  have c1: "fst (handler_connect example_env (Inr ()) ''+15550100'' example_options live_registry) = Inr ()
      \<and> next_ref (fst (snd (handler_connect example_env (Inr ()) ''+15550100'' example_options live_registry)))
          = next_ref live_registry
      \<and> snd (snd (handler_connect example_env (Inr ()) ''+15550100'' example_options live_registry))
          = SocketSendPresenceUpdate (handle (example_socket 1)) available None #
            (if clearOnlinePresenceTimeout (objects live_registry 0) \<noteq> None then [ClearTimeout] else []) @
            [SetTimeout 60000 None]"
    by blast
  from T2 s2 mk
  have c2: "connections (fst (snd (handler_connect example_env (Inr ()) ''+15550100'' example_options stale_registry)))
        ''+15550100'' = Some (next_ref stale_registry)
      \<and> socket (objects (fst (snd (handler_connect example_env (Inr ()) ''+15550100'' example_options
        stale_registry))) (next_ref stale_registry)) = Some (example_socket 2)"
    by blast
  from T3 s1 me ne
  have c3: "fst (handler_connect example_env (Inl (Error ''timed out'')) ''+15550100'' example_options live_registry)
        = Inl (Error ''timed out'')
      \<and> connections (fst (snd (handler_connect example_env (Inl (Error ''timed out'')) ''+15550100''
        example_options live_registry))) = connections live_registry"
    by blast
  have waiting: "connections waiting_registry ''+15550100'' = Some 0"
    and s4: "socket (objects waiting_registry 0) = Some \<lparr> handle = 1, user_id = None, creds_me = False \<rparr>"
    and n4: "next_ref waiting_registry = 1"
    by (simp_all add: waiting_registry_def waiting_session_def)
  have nme: "\<not> creds_me \<lparr> handle = 1, user_id = None, creds_me = False \<rparr>" by simp
  note T4 = connect_existing_session[OF waiting, where options=example_options and reply="Inr ()"
              and env=example_env, unfolded Let_def]
  from T4 s4 nme
  have c4: "next_ref (fst (snd (handler_connect example_env (Inr ()) ''+15550100'' example_options waiting_registry)))
        = next_ref waiting_registry
      \<and> connections (fst (snd (handler_connect example_env (Inr ()) ''+15550100'' example_options waiting_registry)))
        = connections waiting_registry"
    by blast
  show ?thesis using live stale s1 s2 me mk ne c1 c2 c3 waiting s4 c4
    by (simp add: n1 n4 t1 example_socket_def)
qed

text \<open>
  C6 as stated fails for a registered session whose transport handle has no identity yet
  (it waits for the QR code to be scanned): \<^verbatim>\<open>connect\<close> succeeds and no presence
  probe is sent.
\<close>

theorem connect_without_identity_sends_no_probe_counterexample:
  "connections waiting_registry ''+15550100'' = Some 0
   \<and> socket (objects waiting_registry 0) = Some \<lparr> handle = 1, user_id = None, creds_me = False \<rparr>
   \<and> fst (handler_connect example_env (Inr ()) ''+15550100'' example_options waiting_registry) = Inr ()
   \<and> snd (snd (handler_connect example_env (Inr ()) ''+15550100'' example_options waiting_registry)) = []"
  by (simp add: handler_connect_def handler_connect_enter_def waiting_registry_def waiting_session_def
        sendPresenceUpdate_def safeSocket_def updateOptions_def Let_def)

section \<open>Where the code departs from the specification\<close>

subsection \<open>Two overlapping calls of \<^verbatim>\<open>connect\<close>\<close>

text \<open>
  C1 at two calls of \<^verbatim>\<open>connect\<close> for the same phone number, the second arriving
  while the first awaits the session's \<^verbatim>\<open>connect\<close>. \<open>overlapping_connects\<close> runs
  both calls up to that await on an empty registry, then finishes the first and then the
  second. Neither call finds an entry, so each creates a session: two session objects
  exist for the phone number, each with a transport handle of its own, and the map keeps
  the second only.
\<close>

theorem overlapping_connects_create_two_sessions:
  "fst overlapping_connects = Inr (Some 0)
   \<and> fst (snd overlapping_connects) = Inr (Some 1)
   \<and> next_ref (snd (snd overlapping_connects)) = 2
   \<and> phoneNumber (objects (snd (snd overlapping_connects)) 0) = ''+15550100''
   \<and> phoneNumber (objects (snd (snd overlapping_connects)) 1) = ''+15550100''
   \<and> socket (objects (snd (snd overlapping_connects)) 0) = Some (example_socket 2)
   \<and> socket (objects (snd (snd overlapping_connects)) 1) = Some (example_socket 3)
   \<and> connections (snd (snd overlapping_connects)) ''+15550100'' = Some 1"
  by (simp add: overlapping_connects_def handler_connect_enter_def handler_connect_resume_def
        empty_registry_def connect_def new_BaileysConnection_def example_env_def Let_def)

subsection \<open>The reconnect ceiling on a recoverable close\<close>

text \<open>
  C2 at a session whose reconnect count is 10 and that receives a "close" with a
  recoverable reason. \<^verbatim>\<open>handleReconnecting\<close> raises the count to 11 and closes the
  session: the credentials are cleared and the on-close callback is called, so the
  registry drops the entry. \<^verbatim>\<open>handleConnectionUpdate\<close> then goes on as if nothing had
  happened and calls \<^verbatim>\<open>connect\<close>: the credential store is opened again and a new
  transport handle is created for a session that is no longer registered.
\<close>

theorem reconnect_ceiling_falls_through:
  "reconnectCount (live_session\<lparr>reconnectCount := 10\<rparr>) = 10
   \<and> handleConnectionUpdate example_env recoverable_close (live_session\<lparr>reconnectCount := 10\<rparr>) =
       (Inr (),
        live_session\<lparr>reconnectCount := 0, socket := Some (example_socket 2)\<rparr>,
        [LogDebug ''handleConnectionUpdate'', LogWarn ''handleReconnecting'', ClearAuthState,
         CallOnConnectionClose (RegistryOnClose ''+15550100'' None),
         UseRedisAuthState ''+15550100'', MakeWASocket ''Chrome'' False, AddEventListeners 2])
   \<and> connections (fst (snd (deliver example_env 0 (connection_update recoverable_close)
         (live_registry\<lparr>objects := (\<lambda>a. live_session\<lparr>reconnectCount := 10\<rparr>)\<rparr>)))) ''+15550100'' = None
   \<and> socket (objects (fst (snd (deliver example_env 0 (connection_update recoverable_close)
         (live_registry\<lparr>objects := (\<lambda>a. live_session\<lparr>reconnectCount := 10\<rparr>)\<rparr>)))) 0)
       = Some (example_socket 2)"
  by (simp add: handleConnectionUpdate_def isReconnecting_def truthy_bool_def recoverable_close_def
        shouldReconnect_def DisconnectReason_loggedOut_def or_else_def handleReconnecting_def
        close_def call_onConnectionClose_def connect_def live_session_def example_session_def
        new_BaileysConnection_def example_options_def example_env_def example_socket_def
        nullish_else_def Let_def deliver_def emit_def addEventListeners_def handledEvents_def
        withErrorHandling_def live_registry_def)

subsection \<open>An online ping and the reconnect count\<close>

text \<open>
  C8 at a session whose reconnect count is 10 and that receives an online ping, a
  connection update with \<^verbatim>\<open>isOnline\<close> and no connection state. The handler shapes the
  payload for the webhook (its state is presented as "open") and then tests the shaped
  payload, not the connection state it received, so the count is reset to 0 although the
  session made no transition: it keeps its handle and everything else. A recoverable
  close that follows is then counted as the first one, and the session reconnects where,
  without the ping, the ceiling would have closed it.
\<close>

theorem online_ping_defeats_ceiling:
  "connection online_ping = None
   \<and> reconnectCount (live_session\<lparr>reconnectCount := 10\<rparr>) = 10
   \<and> handleConnectionUpdate example_env online_ping (live_session\<lparr>reconnectCount := 10\<rparr>) =
       (Inr (), live_session\<lparr>reconnectCount := 0\<rparr>,
        [SendToWebhook (Payload ''connection.update''
           (ConnectionData \<lparr> connection = Some Open, qr = None, lastDisconnect = None,
                              isNewLogin = None, isOnline = Some True, qrDataUrl = None \<rparr>)
           None) False])
   \<and> handleConnectionUpdate example_env recoverable_close (live_session\<lparr>reconnectCount := 0\<rparr>) =
       (Inr (), live_session\<lparr>reconnectCount := 1, socket := Some (example_socket 2)\<rparr>,
        [LogDebug ''handleConnectionUpdate'',
         SendToWebhook (Payload ''connection.update'' (ConnectionData reconnecting_data) None) False,
         UseRedisAuthState ''+15550100'', MakeWASocket ''Chrome'' False, AddEventListeners 2])"
  by (simp add: handleConnectionUpdate_def isReconnecting_def truthy_bool_def online_ping_def
        recoverable_close_def forward_update_def wrong_phone_number_def shape_def
        shouldReconnect_def DisconnectReason_loggedOut_def or_else_def handleReconnecting_def
        connect_def live_session_def example_session_def new_BaileysConnection_def
        example_options_def example_env_def example_socket_def nullish_else_def Let_def)

section \<open>Properties of the connection-update handler\<close>

subsection \<open>The handler case by case\<close>

lemma listener_connection_update:
  "map_of (addEventListeners env) ''connection.update'' =
     Some (WithErrorHandling ''handleConnectionUpdate'' handleConnectionUpdate_fn)"
  by (simp add: addEventListeners_def handledEvents_def)

lemma emit_connection_update:
  "emit env (connection_update data) s =
     withErrorHandling ''handleConnectionUpdate'' (handleConnectionUpdate env data s)"
  by (simp add: emit_def listener_connection_update)

lemma handleReconnecting_below:
  "reconnectCount s < 10 \<Longrightarrow>
   handleReconnecting s =
     (s\<lparr>reconnectCount := reconnectCount s + 1\<rparr>,
      [SendToWebhook (Payload ''connection.update'' (ConnectionData reconnecting_data) None) False])"
  by (simp add: handleReconnecting_def Let_def)

lemma handleConnectionUpdate_recoverable:
  assumes "\<not> isReconnecting data s" "connection data = Some Close"
    "lastDisconnect data = Some (Some err)" "shouldReconnect err"
    "reconnectCount s < 10" "makeWASocket env = Inr k"
  shows "handleConnectionUpdate env data s =
     (Inr (), s\<lparr>reconnectCount := reconnectCount s + 1, clearAuthState := True, socket := Some k\<rparr>,
      [LogDebug ''handleConnectionUpdate'',
       SendToWebhook (Payload ''connection.update'' (ConnectionData reconnecting_data) None) False,
       UseRedisAuthState (phoneNumber s), MakeWASocket (clientName s) (syncFullHistory s),
       AddEventListeners (handle k)])"
  using assms by (simp add: handleConnectionUpdate_def handleReconnecting_below connect_def Let_def)

lemma handleConnectionUpdate_terminal:
  assumes "\<not> isReconnecting data s" "connection data = Some Close"
    "lastDisconnect data = Some (Some err)" "\<not> shouldReconnect err"
  shows "handleConnectionUpdate env data s =
     (Inr (), s\<lparr>clearAuthState := False, socket := None, reconnectCount := 0\<rparr>,
      (if clearAuthState s then [ClearAuthState] else []) @ call_onConnectionClose s @
      [SendToWebhook (Payload ''connection.update'' (ConnectionData (shape env data)) None) False])"
  using assms
  by (simp add: handleConnectionUpdate_def close_def forward_update_def wrong_phone_number_def Let_def)

lemma on_close_removes: "on_close (RegistryOnClose pn inner) m pn = None"
  by (cases inner) (simp_all add: on_close_absent)

subsection \<open>A "close" event\<close>

text \<open>
  C4, as the code has it. Take a session object of the registry that receives a "close"
  event which carries a disconnect error and is not a new-login signal.
  \<^item> If the reason is recoverable (not a logout, not the end of the QR attempts), the
    reconnect count is below the ceiling (less than 10 before the event) and the new
    transport handle can be created, then the credentials are not cleared, no on-close
    callback is called and the registry's map is as before, a transport handle is
    created, and the session is its old state with the reconnect count raised by one,
    the new handle in place of the old, and the credential store's clear function held
    (\<^verbatim>\<open>connect\<close> takes it from the store again): nothing else of the session changes.
  \<^item> If the reason is terminal, the credentials are cleared when the session still
    holds the clear function, which a session already closed does not (the old handle
    of a session closed by the reconnect ceiling keeps its listeners); in every case
    the session ends without a transport handle, without the clear function and with
    reconnect count 0, its on-close callback is called, which for a callback of the
    registry removes the entry, and no transport handle is created.
\<close>

theorem close_event_effects:
  assumes "connection data = Some Close" and "\<not> truthy_bool (isNewLogin data)"
    and "lastDisconnect data = Some (Some err)"
  shows "let s = objects r a;
             out = deliver env a (connection_update data) r;
             r' = fst (snd out);
             es = snd (snd out)
         in (shouldReconnect err \<and> reconnectCount s < 10 \<longrightarrow>
               (\<forall>k. makeWASocket env = Inr k \<longrightarrow>
                  fst out = Inr ()
                \<and> ClearAuthState \<notin> set es
                \<and> (\<forall>cb. CallOnConnectionClose cb \<notin> set es)
                \<and> connections r' = connections r
                \<and> objects r' a =
                    s\<lparr>reconnectCount := reconnectCount s + 1, clearAuthState := True, socket := Some k\<rparr>
                \<and> MakeWASocket (clientName s) (syncFullHistory s) \<in> set es))
          \<and> (\<not> shouldReconnect err \<longrightarrow>
                  fst out = Inr ()
                \<and> (clearAuthState s \<longrightarrow> ClearAuthState \<in> set es)
                \<and> socket (objects r' a) = None
                \<and> \<not> clearAuthState (objects r' a)
                \<and> reconnectCount (objects r' a) = 0
                \<and> (\<forall>cb. onConnectionClose s = Some cb \<longrightarrow> CallOnConnectionClose cb \<in> set es)
                \<and> (\<forall>pn inner. onConnectionClose s = Some (RegistryOnClose pn inner) \<longrightarrow>
                      connections r' pn = None)
                \<and> (\<forall>n b. MakeWASocket n b \<notin> set es))"
proof -
  let ?s = "objects r a"
  have nr: "\<not> isReconnecting data ?s"
    using assms(1,2) by (simp add: isReconnecting_def)
  have rec: "shouldReconnect err \<Longrightarrow> reconnectCount ?s < 10 \<Longrightarrow> makeWASocket env = Inr k \<Longrightarrow>
      deliver env a (connection_update data) r =
        (Inr (),
         r\<lparr>objects := (objects r)(a := ?s\<lparr>reconnectCount := reconnectCount ?s + 1,
                                             clearAuthState := True, socket := Some k\<rparr>),
           connections := connections r\<rparr>,
         [LogDebug ''handleConnectionUpdate'',
          SendToWebhook (Payload ''connection.update'' (ConnectionData reconnecting_data) None) False,
          UseRedisAuthState (phoneNumber ?s), MakeWASocket (clientName ?s) (syncFullHistory ?s),
          AddEventListeners (handle k)])" for k
    using handleConnectionUpdate_recoverable[OF nr assms(1,3)]
    by (simp add: deliver_def emit_connection_update withErrorHandling_def)
  let ?es = "(if clearAuthState ?s then [ClearAuthState] else []) @ call_onConnectionClose ?s @
      [SendToWebhook (Payload ''connection.update'' (ConnectionData (shape env data)) None) False]"
  have ter: "\<not> shouldReconnect err \<Longrightarrow>
      deliver env a (connection_update data) r =
        (Inr (),
         r\<lparr>objects := (objects r)(a := ?s\<lparr>clearAuthState := False, socket := None, reconnectCount := 0\<rparr>),
           connections := run_callbacks ?es (connections r)\<rparr>,
         ?es)"
    using handleConnectionUpdate_terminal[OF nr assms(1,3)]
    by (simp add: deliver_def emit_connection_update withErrorHandling_def)
  have dereg: "onConnectionClose ?s = Some (RegistryOnClose pn inner) \<Longrightarrow>
      run_callbacks ?es (connections r) pn = None" for pn inner
    by (simp add: call_onConnectionClose_def on_close_removes on_close_absent split: option.splits)
  have part1: "shouldReconnect err \<and> reconnectCount ?s < 10 \<longrightarrow>
               (\<forall>k. makeWASocket env = Inr k \<longrightarrow>
                  fst (deliver env a (connection_update data) r) = Inr ()
                \<and> ClearAuthState \<notin> set (snd (snd (deliver env a (connection_update data) r)))
                \<and> (\<forall>cb. CallOnConnectionClose cb \<notin> set (snd (snd (deliver env a (connection_update data) r))))
                \<and> connections (fst (snd (deliver env a (connection_update data) r))) = connections r
                \<and> objects (fst (snd (deliver env a (connection_update data) r))) a =
                    ?s\<lparr>reconnectCount := reconnectCount ?s + 1, clearAuthState := True, socket := Some k\<rparr>
                \<and> MakeWASocket (clientName ?s) (syncFullHistory ?s) \<in> set (snd (snd (deliver env a (connection_update data) r))))"
    using rec by simp
  have part2: "\<not> shouldReconnect err \<longrightarrow>
                  fst (deliver env a (connection_update data) r) = Inr ()
                \<and> (clearAuthState ?s \<longrightarrow> ClearAuthState \<in> set (snd (snd (deliver env a (connection_update data) r))))
                \<and> socket (objects (fst (snd (deliver env a (connection_update data) r))) a) = None
                \<and> \<not> clearAuthState (objects (fst (snd (deliver env a (connection_update data) r))) a)
                \<and> reconnectCount (objects (fst (snd (deliver env a (connection_update data) r))) a) = 0
                \<and> (\<forall>cb. onConnectionClose ?s = Some cb \<longrightarrow> CallOnConnectionClose cb \<in> set (snd (snd (deliver env a (connection_update data) r))))
                \<and> (\<forall>pn inner. onConnectionClose ?s = Some (RegistryOnClose pn inner) \<longrightarrow>
                      connections (fst (snd (deliver env a (connection_update data) r))) pn = None)
                \<and> (\<forall>n b. MakeWASocket n b \<notin> set (snd (snd (deliver env a (connection_update data) r))))"
  proof
    assume t: "\<not> shouldReconnect err"
    show "fst (deliver env a (connection_update data) r) = Inr ()
                \<and> (clearAuthState ?s \<longrightarrow> ClearAuthState \<in> set (snd (snd (deliver env a (connection_update data) r))))
                \<and> socket (objects (fst (snd (deliver env a (connection_update data) r))) a) = None
                \<and> \<not> clearAuthState (objects (fst (snd (deliver env a (connection_update data) r))) a)
                \<and> reconnectCount (objects (fst (snd (deliver env a (connection_update data) r))) a) = 0
                \<and> (\<forall>cb. onConnectionClose ?s = Some cb \<longrightarrow> CallOnConnectionClose cb \<in> set (snd (snd (deliver env a (connection_update data) r))))
                \<and> (\<forall>pn inner. onConnectionClose ?s = Some (RegistryOnClose pn inner) \<longrightarrow>
                      connections (fst (snd (deliver env a (connection_update data) r))) pn = None)
                \<and> (\<forall>n b. MakeWASocket n b \<notin> set (snd (snd (deliver env a (connection_update data) r))))"
      unfolding ter[OF t] fst_conv snd_conv
      using dereg by (auto simp: call_onConnectionClose_def split: option.splits)
  qed
  show ?thesis unfolding Let_def using part1 part2 by blast
qed


theorem close_event_effects_witness:
  "connection recoverable_close = Some Close
   \<and> \<not> truthy_bool (isNewLogin recoverable_close)
   \<and> shouldReconnect \<lparr> statusCode = Some 428, payload_message = Some ''Connection Closed'',
                          message = ''Connection Closed'' \<rparr>
   \<and> reconnectCount (objects live_registry 0) < 10
   \<and> makeWASocket example_env = Inr (example_socket 2)
   \<and> connections (fst (snd (deliver example_env 0 (connection_update recoverable_close) live_registry)))
        = connections live_registry
   \<and> objects (fst (snd (deliver example_env 0 (connection_update recoverable_close) live_registry))) 0
        = live_session\<lparr>reconnectCount := 1, socket := Some (example_socket 2)\<rparr>
   \<and> connection terminal_close = Some Close
   \<and> \<not> truthy_bool (isNewLogin terminal_close)
   \<and> \<not> shouldReconnect \<lparr> statusCode = Some 401, payload_message = Some ''Connection Failure'',
                            message = ''Connection Failure'' \<rparr>
   \<and> onConnectionClose (objects live_registry 0) = Some (RegistryOnClose ''+15550100'' None)
   \<and> connections (fst (snd (deliver example_env 0 (connection_update terminal_close) live_registry)))
        ''+15550100'' = None
   \<and> socket (objects (fst (snd (deliver example_env 0 (connection_update terminal_close) live_registry))) 0)
        = None"
proof -
  let ?e1 = "\<lparr> statusCode = Some 428, payload_message = Some ''Connection Closed'',
               message = ''Connection Closed'' \<rparr>"
  let ?e2 = "\<lparr> statusCode = Some 401, payload_message = Some ''Connection Failure'',
               message = ''Connection Failure'' \<rparr>"
  have a1: "connection recoverable_close = Some Close"
    and a2: "\<not> truthy_bool (isNewLogin recoverable_close)"
    and a3: "lastDisconnect recoverable_close = Some (Some ?e1)"
    by (simp_all add: recoverable_close_def truthy_bool_def)
  have b1: "connection terminal_close = Some Close"
    and b2: "\<not> truthy_bool (isNewLogin terminal_close)"
    and b3: "lastDisconnect terminal_close = Some (Some ?e2)"
    by (simp_all add: terminal_close_def truthy_bool_def)
  have r1: "shouldReconnect ?e1"
    by (simp add: shouldReconnect_def DisconnectReason_loggedOut_def or_else_def)
  have r2: "\<not> shouldReconnect ?e2"
    by (simp add: shouldReconnect_def DisconnectReason_loggedOut_def)
  have s0: "objects live_registry 0 = live_session" by (simp add: live_registry_def)
  have c: "reconnectCount (objects live_registry 0) < 10"
    by (simp add: s0 live_session_def example_session_def new_BaileysConnection_def)
  have rc: "reconnectCount live_session = 0"
    by (simp add: live_session_def example_session_def new_BaileysConnection_def)
  have ca: "clearAuthState live_session"
    by (simp add: live_session_def)
  have m: "makeWASocket example_env = Inr (example_socket 2)" by (simp add: example_env_def)
  have cb: "onConnectionClose (objects live_registry 0) = Some (RegistryOnClose ''+15550100'' None)"
    by (simp add: s0 live_session_def)
  note T1 = close_event_effects[OF a1 a2 a3, of live_registry 0 example_env, unfolded Let_def]
  note T2 = close_event_effects[OF b1 b2 b3, of live_registry 0 example_env, unfolded Let_def]
  from T1 r1 c m
  have "connections (fst (snd (deliver example_env 0 (connection_update recoverable_close) live_registry)))
          = connections live_registry
      \<and> objects (fst (snd (deliver example_env 0 (connection_update recoverable_close) live_registry))) 0
          = (objects live_registry 0)\<lparr>reconnectCount := reconnectCount (objects live_registry 0) + 1,
               clearAuthState := True, socket := Some (example_socket 2)\<rparr>"
    by blast
  then have w1: "connections (fst (snd (deliver example_env 0 (connection_update recoverable_close) live_registry)))
          = connections live_registry
      \<and> objects (fst (snd (deliver example_env 0 (connection_update recoverable_close) live_registry))) 0
          = live_session\<lparr>reconnectCount := 1, socket := Some (example_socket 2)\<rparr>"
    using rc ca by (simp add: s0 live_session_def)
  from T2 r2 cb
  have w2: "connections (fst (snd (deliver example_env 0 (connection_update terminal_close) live_registry)))
        ''+15550100'' = None
      \<and> socket (objects (fst (snd (deliver example_env 0 (connection_update terminal_close) live_registry))) 0)
        = None"
    by blast
  show ?thesis using a1 a2 b1 b2 r1 r2 c m cb w1 w2 by blast
qed

text \<open>
  C4 as stated fails in its "all other Session state unchanged": a recoverable close goes
  through \<^verbatim>\<open>handleReconnecting\<close>, which counts it.
\<close>

theorem recoverable_close_counts_counterexample:
  "connection recoverable_close = Some Close
   \<and> shouldReconnect \<lparr> statusCode = Some 428, payload_message = Some ''Connection Closed'',
                          message = ''Connection Closed'' \<rparr>
   \<and> reconnectCount live_session = 0
   \<and> reconnectCount (fst (snd (handleConnectionUpdate example_env recoverable_close live_session))) = 1"
  by (simp add: handleConnectionUpdate_def isReconnecting_def truthy_bool_def recoverable_close_def
        shouldReconnect_def DisconnectReason_loggedOut_def or_else_def handleReconnecting_def
        connect_def live_session_def example_session_def new_BaileysConnection_def
        example_env_def Let_def)

end
